theory Spec2Isabelle
  imports Complex_Main
begin

section \<open>Double-precision values\<close>

text \<open>
  The engines compute with IEEE 754 doubles. A double is modelled as a finite real or one
  of the three special values, so that a division by zero is a value of the model
  (\<open>0/0\<close> is \<open>NaN\<close>, \<open>1/0\<close> is \<open>PInf\<close>) and not HOL's \<open>x / 0 = 0\<close>. Arithmetic on finite
  values is exact: rounding, overflow to infinity and the sign of zero are not modelled.
  Three consequences bound what is stated below. A quotient is the exact one, so a
  comparison of a quotient with a constant can fall on the other side where the rounded
  quotient equals the constant (\<open>\<rho>\<close> against one, for rates such as \<open>3 * 0.7\<close> and \<open>0.7\<close>
  with three servers). The exponential of a large argument stays finite where a double
  overflows. There is one zero, so a division by a negative zero has the sign of a
  division by the positive one. The theorems below that range over all inputs are
  stated so that these differences cannot change them: on the outcome of a call, under
  bounds that keep every value in range, or on a comparison that rounding preserves.
\<close>

datatype double = Fin real | PInf | NInf | NaN

fun dneg :: "double \<Rightarrow> double" where
  "dneg (Fin x) = Fin (- x)"
| "dneg PInf = NInf"
| "dneg NInf = PInf"
| "dneg NaN = NaN"

fun dadd :: "double \<Rightarrow> double \<Rightarrow> double" where
  "dadd (Fin x) (Fin y) = Fin (x + y)"
| "dadd NaN _ = NaN"
| "dadd _ NaN = NaN"
| "dadd PInf NInf = NaN"
| "dadd NInf PInf = NaN"
| "dadd PInf _ = PInf"
| "dadd _ PInf = PInf"
| "dadd NInf _ = NInf"
| "dadd _ NInf = NInf"

definition dsub :: "double \<Rightarrow> double \<Rightarrow> double" where
  "dsub a b = dadd a (dneg b)"

text \<open>The sign of an infinite product or quotient, given the sign of the finite factor.\<close>

definition inf_signed :: "bool \<Rightarrow> double" where
  "inf_signed positive = (if positive then PInf else NInf)"

fun dmul :: "double \<Rightarrow> double \<Rightarrow> double" where
  "dmul (Fin x) (Fin y) = Fin (x * y)"
| "dmul NaN _ = NaN"
| "dmul _ NaN = NaN"
| "dmul PInf (Fin y) = (if y = 0 then NaN else inf_signed (0 < y))"
| "dmul NInf (Fin y) = (if y = 0 then NaN else inf_signed (y < 0))"
| "dmul (Fin x) PInf = (if x = 0 then NaN else inf_signed (0 < x))"
| "dmul (Fin x) NInf = (if x = 0 then NaN else inf_signed (x < 0))"
| "dmul PInf PInf = PInf"
| "dmul NInf NInf = PInf"
| "dmul PInf NInf = NInf"
| "dmul NInf PInf = NInf"

fun ddiv :: "double \<Rightarrow> double \<Rightarrow> double" where
  "ddiv (Fin x) (Fin y) =
     (if y \<noteq> 0 then Fin (x / y)
      else if x = 0 then NaN
      else inf_signed (0 < x))"
| "ddiv NaN _ = NaN"
| "ddiv _ NaN = NaN"
| "ddiv (Fin x) PInf = Fin 0"
| "ddiv (Fin x) NInf = Fin 0"
| "ddiv PInf (Fin y) = inf_signed (0 \<le> y)"
| "ddiv NInf (Fin y) = inf_signed (y < 0)"
| "ddiv PInf PInf = NaN"
| "ddiv PInf NInf = NaN"
| "ddiv NInf PInf = NaN"
| "ddiv NInf NInf = NaN"

fun dexp :: "double \<Rightarrow> double" where
  "dexp (Fin x) = Fin (exp x)"
| "dexp PInf = PInf"
| "dexp NInf = Fin 0"
| "dexp NaN = NaN"

text \<open>
  \<open>pow\<close> (C++ \<open>std::pow\<close>, Haskell \<open>**\<close>, Fortran and R \<open>**\<close>/\<open>^\<close>) is only ever called
  with an integer-valued exponent in this program, so the exponent is an \<open>int\<close>.
  \<open>pow x 0 = 1\<close> for every \<open>x\<close>, also for \<open>0\<close> and \<open>NaN\<close>; a zero base with a negative
  exponent is a pole.
\<close>

fun dpow :: "double \<Rightarrow> int \<Rightarrow> double" where
  "dpow (Fin x) n =
     (if 0 \<le> n then Fin (x ^ nat n)
      else if x = 0 then PInf
      else Fin (1 / x ^ nat (- n)))"
| "dpow NaN n = (if n = 0 then Fin 1 else NaN)"
| "dpow PInf n = (if n = 0 then Fin 1 else if 0 < n then PInf else Fin 0)"
| "dpow NInf n =
     (if n = 0 then Fin 1
      else if n < 0 then Fin 0
      else if even n then PInf else NInf)"

text \<open>Comparisons: every comparison with \<open>NaN\<close> is false.\<close>

fun dless :: "double \<Rightarrow> double \<Rightarrow> bool" where
  "dless (Fin x) (Fin y) = (x < y)"
| "dless NaN _ = False"
| "dless _ NaN = False"
| "dless _ NInf = False"
| "dless PInf _ = False"
| "dless NInf _ = True"
| "dless _ PInf = True"

definition dgt :: "double \<Rightarrow> double \<Rightarrow> bool" where
  "dgt a b = dless b a"

fun dle :: "double \<Rightarrow> double \<Rightarrow> bool" where
  "dle NaN _ = False"
| "dle _ NaN = False"
| "dle a b = (\<not> dless b a)"

definition dge :: "double \<Rightarrow> double \<Rightarrow> bool" where
  "dge a b = dle b a"

text \<open>Conversion of a machine integer to a double (\<open>static_cast<double>\<close>, \<open>fromIntegral\<close>,
  \<open>real(i, dp)\<close>).\<close>

definition dint :: "int \<Rightarrow> double" where
  "dint n = Fin (of_int n)"

section \<open>Sensors\<close>

datatype SensorType = TRAFFIC | AIR_QUALITY | WATER_FLOW

record Location =
  locX :: double
  locY :: double
  locZ :: double

record Sensor =
  sensorId :: string
  sensorType :: SensorType
  location :: Location
  health :: double
  uptimeHours :: double
  failureRate :: double
  kStages :: int
  queuePosition :: int

section \<open>C++: ExponentialModel\<close>

record ExponentialModel =
  exp_lambda :: double

definition ExponentialModel_new :: "double \<Rightarrow> ExponentialModel" where
  "ExponentialModel_new rate = \<lparr> exp_lambda = rate \<rparr>"

definition ExponentialModel_reliability :: "ExponentialModel \<Rightarrow> double \<Rightarrow> double" where
  "ExponentialModel_reliability m t = dexp (dmul (dneg (exp_lambda m)) t)"

definition ExponentialModel_hazardRate :: "ExponentialModel \<Rightarrow> double" where
  "ExponentialModel_hazardRate m = exp_lambda m"

definition ExponentialModel_mtbf :: "ExponentialModel \<Rightarrow> double" where
  "ExponentialModel_mtbf m = ddiv (Fin 1) (exp_lambda m)"

definition ExponentialModel_pdf :: "ExponentialModel \<Rightarrow> double \<Rightarrow> double" where
  "ExponentialModel_pdf m t = dmul (exp_lambda m) (dexp (dmul (dneg (exp_lambda m)) t))"

section \<open>C++: ErlangModel\<close>

record ErlangModel =
  erl_k :: int
  erl_lambda :: double

definition ErlangModel_new :: "int \<Rightarrow> double \<Rightarrow> ErlangModel" where
  "ErlangModel_new stages rate = \<lparr> erl_k = stages, erl_lambda = rate \<rparr>"

text \<open>\<open>for(int i = 2; i <= n; ++i) result *= i\<close>, entered with \<open>result = 1.0\<close>.\<close>

function factorial_loop :: "int \<Rightarrow> int \<Rightarrow> double \<Rightarrow> double" where
  "factorial_loop i n result =
     (if i \<le> n then factorial_loop (i + 1) n (dmul result (dint i)) else result)"
  by pat_completeness auto
termination
  by (relation "measure (\<lambda>(i, n, result). nat (n + 1 - i))") auto

definition ErlangModel_factorial :: "int \<Rightarrow> double" where
  "ErlangModel_factorial n = factorial_loop 2 n (Fin 1)"

text \<open>
  The loop of \<open>ErlangModel::reliability\<close>:
  \<open>for(int i = 0; i < k; ++i) { if(i > 0) term *= (lambda * t) / i; cdf += term; }\<close>.
  It returns the accumulator \<open>cdf\<close>.
\<close>

function reliability_loop :: "int \<Rightarrow> int \<Rightarrow> double \<Rightarrow> double \<Rightarrow> double \<Rightarrow> double \<Rightarrow> double" where
  "reliability_loop i k lam t term cdf =
     (if i < k then
        (let term' = (if 0 < i then dmul term (ddiv (dmul lam t) (dint i)) else term)
         in reliability_loop (i + 1) k lam t term' (dadd cdf term'))
      else cdf)"
  by pat_completeness auto
termination
  by (relation "measure (\<lambda>(i, k, lam, t, term, cdf). nat (k - i))") auto

definition ErlangModel_reliability :: "ErlangModel \<Rightarrow> double \<Rightarrow> double" where
  "ErlangModel_reliability m t =
     (let cdf = reliability_loop 0 (erl_k m) (erl_lambda m) t
                  (dexp (dmul (dneg (erl_lambda m)) t)) (Fin 0)
      in dsub (Fin 1) cdf)"

definition ErlangModel_pdf :: "ErlangModel \<Rightarrow> double \<Rightarrow> double" where
  "ErlangModel_pdf m t =
     ddiv (dmul (dmul (dpow (erl_lambda m) (erl_k m)) (dpow t (erl_k m - 1)))
                (dexp (dmul (dneg (erl_lambda m)) t)))
          (ErlangModel_factorial (erl_k m - 1))"

definition ErlangModel_mttf :: "ErlangModel \<Rightarrow> double" where
  "ErlangModel_mttf m = ddiv (dint (erl_k m)) (erl_lambda m)"

section \<open>C++: QueueingModel\<close>

record QueueingModel =
  arrivalRate :: double
  serviceRate :: double
  numServers :: int
  rho :: double

text \<open>The constructor computes \<open>rho = arrivalRate / (numServers * serviceRate)\<close>.\<close>

definition QueueingModel_new :: "double \<Rightarrow> double \<Rightarrow> int \<Rightarrow> QueueingModel" where
  "QueueingModel_new arrival service servers =
     \<lparr> arrivalRate = arrival, serviceRate = service, numServers = servers,
       rho = ddiv arrival (dmul (dint servers) service) \<rparr>"

text \<open>\<open>QueueingModel::factorial\<close> repeats the text of \<open>ErlangModel::factorial\<close>.\<close>

definition QueueingModel_factorial :: "int \<Rightarrow> double" where
  "QueueingModel_factorial n = factorial_loop 2 n (Fin 1)"

text \<open>\<open>for(int n = 0; n < numServers; ++n) sumTerm += pow(lambdaMu, n) / factorial(n)\<close>.\<close>

function sumTerm_loop :: "int \<Rightarrow> int \<Rightarrow> double \<Rightarrow> double \<Rightarrow> double" where
  "sumTerm_loop n c lambdaMu sumTerm =
     (if n < c then
        sumTerm_loop (n + 1) c lambdaMu
          (dadd sumTerm (ddiv (dpow lambdaMu n) (QueueingModel_factorial n)))
      else sumTerm)"
  by pat_completeness auto
termination
  by (relation "measure (\<lambda>(n, c, lambdaMu, sumTerm). nat (c - n))") auto

definition QueueingModel_calculateP0 :: "QueueingModel \<Rightarrow> double" where
  "QueueingModel_calculateP0 q =
     (let lambdaMu = ddiv (arrivalRate q) (serviceRate q);
          sumTerm = sumTerm_loop 0 (numServers q) lambdaMu (Fin 0);
          lastTerm = ddiv (dpow lambdaMu (numServers q))
                       (dmul (QueueingModel_factorial (numServers q)) (dsub (Fin 1) (rho q)))
      in ddiv (Fin 1) (dadd sumTerm lastTerm))"

definition QueueingModel_isStable :: "QueueingModel \<Rightarrow> bool" where
  "QueueingModel_isStable q = dless (rho q) (Fin 1)"

definition QueueingModel_getUtilization :: "QueueingModel \<Rightarrow> double" where
  "QueueingModel_getUtilization q = rho q"

definition QueueingModel_avgQueueLength :: "QueueingModel \<Rightarrow> double" where
  "QueueingModel_avgQueueLength q =
     (if \<not> QueueingModel_isStable q then Fin (- 1)
      else
        (let p0 = QueueingModel_calculateP0 q;
             lambdaMu = ddiv (arrivalRate q) (serviceRate q)
         in ddiv (dmul (dmul p0 (dpow lambdaMu (numServers q))) (rho q))
                 (dmul (QueueingModel_factorial (numServers q))
                       (dpow (dsub (Fin 1) (rho q)) 2))))"

definition QueueingModel_avgWaitTime :: "QueueingModel \<Rightarrow> double" where
  "QueueingModel_avgWaitTime q =
     (if \<not> QueueingModel_isStable q then Fin (- 1)
      else
        (let lq = QueueingModel_avgQueueLength q
         in if dgt (arrivalRate q) (Fin 0) then ddiv lq (arrivalRate q) else Fin 0))"

section \<open>C++: FleetReliabilityManager\<close>

record FleetReliabilityManager =
  sensors :: "Sensor list"
  exponentialModels :: "ExponentialModel list"
  erlangModels :: "ErlangModel list"

text \<open>A default-constructed manager: three empty vectors.\<close>

definition FleetReliabilityManager_new :: FleetReliabilityManager where
  "FleetReliabilityManager_new = \<lparr> sensors = [], exponentialModels = [], erlangModels = [] \<rparr>"

definition addSensor :: "FleetReliabilityManager \<Rightarrow> Sensor \<Rightarrow> FleetReliabilityManager" where
  "addSensor m sensor =
     \<lparr> sensors = sensors m @ [sensor],
       exponentialModels = exponentialModels m @ [ExponentialModel_new (failureRate sensor)],
       erlangModels = erlangModels m @ [ErlangModel_new (kStages sensor) (failureRate sensor)] \<rparr>"

text \<open>Truncation toward zero: \<open>static_cast<int>\<close> of a finite double, Fortran's \<open>int\<close>.\<close>

definition trunc_toward_zero :: "real \<Rightarrow> int" where
  "trunc_toward_zero x = (if 0 \<le> x then \<lfloor>x\<rfloor> else \<lceil>x\<rceil>)"

text \<open>The three means: a running sum from \<open>0.0\<close>, divided by the vector's size.\<close>

definition calculateFleetMTBF :: "FleetReliabilityManager \<Rightarrow> double" where
  "calculateFleetMTBF m =
     (let sum = foldl (\<lambda>sum model. dadd sum (ExponentialModel_mtbf model)) (Fin 0)
                  (exponentialModels m)
      in ddiv sum (dint (int (length (exponentialModels m)))))"

definition calculateFleetMTTF :: "FleetReliabilityManager \<Rightarrow> double" where
  "calculateFleetMTTF m =
     (let sum = foldl (\<lambda>sum model. dadd sum (ErlangModel_mttf model)) (Fin 0)
                  (erlangModels m)
      in ddiv sum (dint (int (length (erlangModels m)))))"

definition calculateFleetReliability :: "FleetReliabilityManager \<Rightarrow> double \<Rightarrow> double" where
  "calculateFleetReliability m timeHorizon =
     (let sum = foldl (\<lambda>sum model. dadd sum (ErlangModel_reliability model timeHorizon)) (Fin 0)
                  (erlangModels m)
      in ddiv sum (dint (int (length (erlangModels m)))))"

record SensorStats =
  total :: int
  active :: int
  warning :: int
  failed :: int

definition getSensorStats_step :: "SensorStats \<Rightarrow> Sensor \<Rightarrow> SensorStats" where
  "getSensorStats_step stats sensor =
     (if dgt (health sensor) (Fin 70) then stats\<lparr> active := active stats + 1 \<rparr>
      else if dgt (health sensor) (Fin 30) then stats\<lparr> warning := warning stats + 1 \<rparr>
      else stats\<lparr> failed := failed stats + 1 \<rparr>)"

definition getSensorStats :: "FleetReliabilityManager \<Rightarrow> SensorStats" where
  "getSensorStats m =
     foldl getSensorStats_step
       \<lparr> total = int (length (sensors m)), active = 0, warning = 0, failed = 0 \<rparr>
       (sensors m)"

record CascadeRisk_cpp =
  cr_currentFailures :: int
  cr_riskFactor :: double
  cr_expectedAdditional :: int
  cr_riskLevel :: string
  cr_dependencyMultiplier :: double

text \<open>
  \<open>dependencyMultiplier\<close> only ever holds one of the literals \<open>1.5\<close>, \<open>1.2\<close>, \<open>1.0\<close>, so
  the product \<open>currentFailures * dependencyMultiplier * 0.3\<close> is finite and is computed
  on the reals before the cast to \<open>int\<close>.
\<close>

definition analyzeCascadeRisk_cpp :: "FleetReliabilityManager \<Rightarrow> CascadeRisk_cpp" where
  "analyzeCascadeRisk_cpp m =
     (let currentFailures =
            foldl (\<lambda>n sensor. if dless (health sensor) (Fin 30) then n + 1 else n) (0::int)
              (sensors m);
          riskFactor = ddiv (dint currentFailures) (dint (int (length (sensors m))));
          dependencyMultiplier =
            (if dgt riskFactor (Fin (2/10)) then 15/10
             else if dgt riskFactor (Fin (1/10)) then 12/10
             else (1::real));
          expectedAdditional =
            trunc_toward_zero (of_int currentFailures * dependencyMultiplier * (3/10));
          riskLevel =
            (if dgt riskFactor (Fin (15/100)) then ''HIGH''
             else if dgt riskFactor (Fin (8/100)) then ''MEDIUM''
             else ''LOW'')
      in \<lparr> cr_currentFailures = currentFailures, cr_riskFactor = riskFactor,
           cr_expectedAdditional = expectedAdditional, cr_riskLevel = riskLevel,
           cr_dependencyMultiplier = Fin dependencyMultiplier \<rparr>)"

section \<open>Haskell: ReliabilityModels\<close>

text \<open>
  Haskell's unary minus binds more loosely than \<open>*\<close>: \<open>exp (-lambda * t)\<close> is
  \<open>exp (negate (lambda * t))\<close>.
\<close>

definition exponentialReliability :: "double \<Rightarrow> double \<Rightarrow> double" where
  "exponentialReliability lambda t = dexp (dneg (dmul lambda t))"

definition exponentialHazardRate :: "double \<Rightarrow> double" where
  "exponentialHazardRate lambda = lambda"

definition exponentialMTBF :: "double \<Rightarrow> double" where
  "exponentialMTBF lambda = ddiv (Fin 1) lambda"

text \<open>\<open>product [1..fromIntegral n]\<close>; the enumeration is empty for \<open>n < 1\<close>.\<close>

definition factorial :: "int \<Rightarrow> double" where
  "factorial n = foldl dmul (Fin 1) (map dint [1..n])"

definition erlangPDF :: "int \<Rightarrow> double \<Rightarrow> double \<Rightarrow> double" where
  "erlangPDF k lambda t =
     (if dless t (Fin 0) then Fin 0
      else ddiv (dmul (dmul (dpow lambda k) (dpow t (k - 1))) (dexp (dneg (dmul lambda t))))
                (factorial (k - 1)))"

definition erlangTerm :: "double \<Rightarrow> double \<Rightarrow> int \<Rightarrow> double" where
  "erlangTerm lambda t i =
     ddiv (dmul (dexp (dneg (dmul lambda t))) (dpow (dmul lambda t) i)) (factorial i)"

definition erlangCDF :: "int \<Rightarrow> double \<Rightarrow> double \<Rightarrow> double" where
  "erlangCDF k lambda t =
     (if dless t (Fin 0) then Fin 0
      else dsub (Fin 1) (foldl dadd (Fin 0) (map (erlangTerm lambda t) [0..k - 1])))"

definition erlangReliability :: "int \<Rightarrow> double \<Rightarrow> double \<Rightarrow> double" where
  "erlangReliability k lambda t = dsub (Fin 1) (erlangCDF k lambda t)"

definition erlangMTTF :: "int \<Rightarrow> double \<Rightarrow> double" where
  "erlangMTTF k lambda = ddiv (dint k) lambda"

record FleetMetrics =
  totalSensors :: int
  activeSensors :: int
  warningSensors :: int
  failedSensors :: int
  fleetMTBF :: double
  fleetMTTF :: double
  fleetReliability :: double

definition average :: "double list \<Rightarrow> double" where
  "average xs = ddiv (foldl dadd (Fin 0) xs) (dint (int (length xs)))"

definition calculateFleetMetrics :: "Sensor list \<Rightarrow> double \<Rightarrow> FleetMetrics" where
  "calculateFleetMetrics snsrs timeHorizon =
     \<lparr> totalSensors = int (length snsrs),
       activeSensors = int (length (filter (\<lambda>s. dgt (health s) (Fin 70)) snsrs)),
       warningSensors =
         int (length (filter (\<lambda>s. dgt (health s) (Fin 30) \<and> dle (health s) (Fin 70)) snsrs)),
       failedSensors = int (length (filter (\<lambda>s. dle (health s) (Fin 30)) snsrs)),
       fleetMTBF = average (map (\<lambda>s. exponentialMTBF (failureRate s)) snsrs),
       fleetMTTF = average (map (\<lambda>s. erlangMTTF (kStages s) (failureRate s)) snsrs),
       fleetReliability =
         average (map (\<lambda>s. erlangReliability (kStages s) (failureRate s) timeHorizon) snsrs) \<rparr>"

datatype HealthStatus = Active | Warning | Failed

definition classifySensor :: "Sensor \<Rightarrow> HealthStatus" where
  "classifySensor sensor =
     (if dgt (health sensor) (Fin 70) then Active
      else if dgt (health sensor) (Fin 30) then Warning
      else Failed)"

datatype RiskLevel = Low | Medium | High

record CascadeRisk =
  currentFailures :: int
  cascadeRiskFactor :: double
  expectedAdditionalFailures :: int
  riskLevel :: RiskLevel
  dependencyMultiplier :: double

text \<open>
  Haskell's \<open>round\<close> (also R's): to the nearest integer, a tie to the even neighbour. This
  is the Prelude's definition over \<open>properFraction\<close>, which truncates toward zero.
\<close>

definition round_half_even :: "real \<Rightarrow> int" where
  "round_half_even x =
     (let n = trunc_toward_zero x;
          r = x - of_int n;
          m = (if r < 0 then n - 1 else n + 1)
      in if \<bar>r\<bar> < 1/2 then n
         else if \<bar>r\<bar> = 1/2 then (if even n then n else m)
         else m)"

definition analyzeCascadeRisk :: "Sensor list \<Rightarrow> CascadeRisk" where
  "analyzeCascadeRisk snsrs =
     (let failedSensorsList = filter (\<lambda>s. dless (health s) (Fin 30)) snsrs;
          currentFailures = int (length failedSensorsList);
          totalSensors = int (length snsrs);
          cascadeRiskFactor = ddiv (dint currentFailures) (dint totalSensors);
          dependencyMultiplier =
            (if dgt cascadeRiskFactor (Fin (2/10)) then 15/10
             else if dgt cascadeRiskFactor (Fin (1/10)) then 12/10
             else (1::real));
          expectedAdditionalFailures =
            round_half_even (of_int currentFailures * dependencyMultiplier * (3/10));
          riskLevel =
            (if dgt cascadeRiskFactor (Fin (15/100)) then High
             else if dgt cascadeRiskFactor (Fin (8/100)) then Medium
             else Low)
      in \<lparr> currentFailures = currentFailures, cascadeRiskFactor = cascadeRiskFactor,
           expectedAdditionalFailures = expectedAdditionalFailures, riskLevel = riskLevel,
           dependencyMultiplier = Fin dependencyMultiplier \<rparr>)"

record QueueMetrics =
  utilization :: double
  avgQueueLength :: double
  avgWaitTimeMinutes :: double

definition calculateQueueMetrics :: "double \<Rightarrow> double \<Rightarrow> int \<Rightarrow> QueueMetrics option" where
  "calculateQueueMetrics arrival service servers =
     (let rho = ddiv arrival (dmul (dint servers) service);
          utilization = dmul rho (Fin 100);
          lambdaMu = ddiv arrival service;
          p0Denominator =
            dadd (foldl dadd (Fin 0) (map (\<lambda>n. ddiv (dpow lambdaMu n) (factorial n)) [0..servers - 1]))
                 (ddiv (dpow lambdaMu servers) (dmul (factorial servers) (dsub (Fin 1) rho)));
          p0 = ddiv (Fin 1) p0Denominator;
          avgQueueLength =
            ddiv (dmul (dmul p0 (dpow lambdaMu servers)) rho)
                 (dmul (factorial servers) (dpow (dsub (Fin 1) rho) 2));
          avgWaitTimeHours = ddiv avgQueueLength arrival;
          avgWaitTimeMinutes = dmul avgWaitTimeHours (Fin 60)
      in if dge rho (Fin 1) then None
         else Some \<lparr> utilization = utilization, avgQueueLength = avgQueueLength,
                     avgWaitTimeMinutes = avgWaitTimeMinutes \<rparr>)"

section \<open>Fortran: the program iot_reliability_tracker\<close>

text \<open>
  \<open>do i = 0, k - 1\<close> with \<open>term = term * (lambda * t) / real(i, dp)\<close>, which Fortran reads
  as \<open>(term * (lambda * t)) / i\<close>.
\<close>

function erlang_reliability_loop :: "int \<Rightarrow> int \<Rightarrow> double \<Rightarrow> double \<Rightarrow> double \<Rightarrow> double \<Rightarrow> double" where
  "erlang_reliability_loop i k lam t term cdf_value =
     (if i \<le> k - 1 then
        (let term' = (if 0 < i then ddiv (dmul term (dmul lam t)) (dint i) else term)
         in erlang_reliability_loop (i + 1) k lam t term' (dadd cdf_value term'))
      else cdf_value)"
  by pat_completeness auto
termination
  by (relation "measure (\<lambda>(i, k, lam, t, term, cdf_value). nat (k - i))") auto

definition erlang_reliability :: "int \<Rightarrow> double \<Rightarrow> double \<Rightarrow> double" where
  "erlang_reliability k lambda t =
     (let cdf_value = erlang_reliability_loop 0 k lambda t (dexp (dmul (dneg lambda) t)) (Fin 0)
      in dsub (Fin 1) cdf_value)"

function factorial_f90_loop :: "int \<Rightarrow> int \<Rightarrow> double \<Rightarrow> double" where
  "factorial_f90_loop i n fact_acc =
     (if i \<le> n then factorial_f90_loop (i + 1) n (dmul fact_acc (dint i)) else fact_acc)"
  by pat_completeness auto
termination
  by (relation "measure (\<lambda>(i, n, fact_acc). nat (n + 1 - i))") auto

definition factorial_f90 :: "int \<Rightarrow> double" where
  "factorial_f90 n = factorial_f90_loop 2 n (Fin 1)"

text \<open>The three \<open>intent(out)\<close> arguments of \<open>analyze_maintenance_queue\<close>.\<close>

record queue_out =
  util :: double
  avg_queue :: double
  avg_wait :: double

function sum_term_loop :: "int \<Rightarrow> int \<Rightarrow> double \<Rightarrow> double \<Rightarrow> double" where
  "sum_term_loop i n_servers lambda_mu sum_term =
     (if i \<le> n_servers - 1 then
        sum_term_loop (i + 1) n_servers lambda_mu
          (dadd sum_term (ddiv (dpow lambda_mu i) (factorial_f90 i)))
      else sum_term)"
  by pat_completeness auto
termination
  by (relation "measure (\<lambda>(i, n_servers, lambda_mu, sum_term). nat (n_servers - i))") auto

definition analyze_maintenance_queue :: "double \<Rightarrow> double \<Rightarrow> int \<Rightarrow> queue_out" where
  "analyze_maintenance_queue arr_rate serv_rate n_servers =
     (let rho = ddiv arr_rate (dmul (dint n_servers) serv_rate)
      in if dge rho (Fin 1) then \<lparr> util = rho, avg_queue = Fin (- 1), avg_wait = Fin (- 1) \<rparr>
         else
           (let lambda_mu = ddiv arr_rate serv_rate;
                sum_term = sum_term_loop 0 n_servers lambda_mu (Fin 0);
                last_term = ddiv (dpow lambda_mu n_servers)
                              (dmul (factorial_f90 n_servers) (dsub (Fin 1) rho));
                p0 = ddiv (Fin 1) (dadd sum_term last_term);
                lq = ddiv (dmul (dmul p0 (dpow lambda_mu n_servers)) rho)
                       (dmul (factorial_f90 n_servers) (dpow (dsub (Fin 1) rho) 2))
            in \<lparr> util = rho, avg_queue = lq,
                 avg_wait = (if dgt arr_rate (Fin 0) then ddiv lq arr_rate else Fin 0) \<rparr>))"

text \<open>
  \<open>classify_sensors_by_health\<close> reads the first \<open>n\<close> entries of the health array and
  returns the counts \<open>(active, warning, failed)\<close>.
\<close>

definition classify_step :: "int \<times> int \<times> int \<Rightarrow> double \<Rightarrow> int \<times> int \<times> int" where
  "classify_step counts h =
     (case counts of (act, warn, fail) \<Rightarrow>
        if dgt h (Fin 70) then (act + 1, warn, fail)
        else if dgt h (Fin 30) then (act, warn + 1, fail)
        else (act, warn, fail + 1))"

definition classify_sensors_by_health :: "int \<Rightarrow> double list \<Rightarrow> int \<times> int \<times> int" where
  "classify_sensors_by_health n hs = foldl classify_step (0, 0, 0) (take (nat n) hs)"

text \<open>\<open>analyze_cascade_risk\<close> prints its locals; the model returns them.\<close>

record cascade_out =
  risk_factor :: double
  dep_mult :: double
  expected_additional :: int
  risk_level :: string

definition analyze_cascade_risk :: "int \<Rightarrow> int \<Rightarrow> cascade_out" where
  "analyze_cascade_risk n_failed n_total =
     (let rf = ddiv (dint n_failed) (dint n_total);
          dm = (if dgt rf (Fin (2/10)) then 15/10
                else if dgt rf (Fin (1/10)) then 12/10
                else (1::real))
      in \<lparr> risk_factor = rf, dep_mult = Fin dm,
           expected_additional = trunc_toward_zero (of_int n_failed * dm * (3/10)),
           risk_level =
             (if dgt rf (Fin (15/100)) then ''HIGH''
              else if dgt rf (Fin (8/100)) then ''MEDIUM''
              else ''LOW'') \<rparr>)"

text \<open>
  The main program classifies the fleet and hands the failed count of that classification
  to the cascade analysis: \<open>call analyze_cascade_risk(failed_count, n_sensors)\<close>.
\<close>

definition main_cascade :: "int \<Rightarrow> double list \<Rightarrow> cascade_out" where
  "main_cascade n_sensors health_values =
     (case classify_sensors_by_health n_sensors health_values of
        (active_count, warning_count, failed_count) \<Rightarrow>
          analyze_cascade_risk failed_count n_sensors)"

section \<open>R: the cascade analysis\<close>

text \<open>
  The R function reads the \<open>health\<close> column of the data frame, here a list of finite
  values. On an empty data frame the risk is \<open>0/0 = NaN\<close> and R stops at
  \<open>if (cascade_risk > 0.2)\<close> with "missing value where TRUE/FALSE needed".
\<close>

datatype r_error = MissingValueInCondition

record r_cascade =
  current_failures :: int
  cascade_risk_factor :: real
  expected_additional_failures :: int
  r_risk_level :: string
  dependency_multiplier :: real

definition analyze_cascade_risk_R :: "real list \<Rightarrow> r_error + r_cascade" where
  "analyze_cascade_risk_R health_column =
     (let n_failed = int (length (filter (\<lambda>h. h < 30) health_column));
          n_total = int (length health_column)
      in if n_total = 0 then Inl MissingValueInCondition
         else
           (let cascade_risk = of_int n_failed / of_int n_total;
                dm = (if cascade_risk > 2/10 then 15/10
                      else if cascade_risk > 1/10 then 12/10
                      else (1::real))
            in Inr \<lparr> current_failures = n_failed, cascade_risk_factor = cascade_risk,
                     expected_additional_failures = round_half_even (of_int n_failed * dm * (3/10)),
                     r_risk_level =
                       (if cascade_risk > 15/100 then ''HIGH''
                        else if cascade_risk > 8/100 then ''MEDIUM''
                        else ''LOW''),
                     dependency_multiplier = dm \<rparr>))"

section \<open>The survival function of the specification\<close>

text \<open>
  The Poisson survival sum of the specification,
  \<open>R(t) = \<Sum>_{i=0}^{k-1} e^(-\<lambda>t) (\<lambda>t)^i / i!\<close>, written from its formula.
\<close>

definition poisson_survival :: "nat \<Rightarrow> real \<Rightarrow> real \<Rightarrow> real" where
  "poisson_survival k lam t = (\<Sum>i<k. exp (- lam * t) * (lam * t) ^ i / fact i)"

text \<open>One term of that sum, with the factor \<open>e = e^(-\<lambda>t)\<close> and \<open>x = \<lambda>t\<close>.\<close>

definition poisson_term :: "real \<Rightarrow> real \<Rightarrow> nat \<Rightarrow> real" where
  "poisson_term e x j = e * x ^ j / fact j"

section \<open>Sample fleets\<close>

text \<open>
  A manager is filled by \<open>addSensor\<close>, one sensor at a time, as \<open>initializeSensorNetwork\<close>
  does.
\<close>

definition manager_of :: "Sensor list \<Rightarrow> FleetReliabilityManager" where
  "manager_of snsrs = foldl addSensor FleetReliabilityManager_new snsrs"

text \<open>A sensor with a given health, and a fleet of fifty with five sensors at health 20.\<close>

definition probe_sensor :: "real \<Rightarrow> Sensor" where
  "probe_sensor h =
     \<lparr> sensorId = ''SNS-0001'', sensorType = TRAFFIC,
       location = \<lparr> locX = Fin 0, locY = Fin 0, locZ = Fin 0 \<rparr>,
       health = Fin h, uptimeHours = Fin 1000, failureRate = Fin (5/10000),
       kStages = 3, queuePosition = 0 \<rparr>"

definition probe_fleet :: "Sensor list" where
  "probe_fleet = replicate 5 (probe_sensor 20) @ replicate 45 (probe_sensor 80)"

text \<open>
  A fleet of fifty whose failed tier holds five sensors, one of them at health exactly 30.
\<close>

definition boundary_fleet :: "Sensor list" where
  "boundary_fleet =
     replicate 4 (probe_sensor 20) @ [probe_sensor 30] @ replicate 45 (probe_sensor 80)"

section \<open>Arithmetic on finite doubles\<close>

lemma dsub_Fin: "dsub (Fin x) (Fin y) = Fin (x - y)"
  by (simp add: dsub_def)

lemma factorial_loop_Fin:
  "1 \<le> i \<Longrightarrow> i \<le> n + 1 \<Longrightarrow>
   factorial_loop i n (Fin r) = Fin (r * fact (nat n) / fact (nat (i - 1)))"
proof (induction i n "Fin r" arbitrary: r rule: factorial_loop.induct)
  case (1 i n)
  show ?case
  proof (cases "i \<le> n")
    case True
    have nat_i: "nat i = Suc (nat (i - 1))" using "1.prems" by simp
    have "factorial_loop i n (Fin r) = factorial_loop (i + 1) n (Fin (r * of_int i))"
      using True by (simp add: dint_def)
    also have "\<dots> = Fin (r * of_int i * fact (nat n) / fact (nat i))"
      using "1.hyps"[OF True, of "r * of_int i"] "1.prems" True by (simp add: dint_def)
    also have "r * of_int i * fact (nat n) / fact (nat i) = r * fact (nat n) / fact (nat (i - 1))"
      using "1.prems" by (subst nat_i, subst fact_Suc) (simp add: nat_i[symmetric])
    finally show ?thesis .
  next
    case False
    then have "i = n + 1" using "1.prems" by simp
    then show ?thesis by simp
  qed
qed

lemma factorial_loop_past: "n < i \<Longrightarrow> factorial_loop i n r = r"
  by simp

lemma ErlangModel_factorial_Fin: "ErlangModel_factorial n = Fin (fact (nat n))"
proof (cases "1 \<le> n")
  case True
  then show ?thesis
    unfolding ErlangModel_factorial_def using factorial_loop_Fin[of 2 n 1] by simp
next
  case False
  then have "nat n = 0" by simp
  then show ?thesis unfolding ErlangModel_factorial_def using False by simp
qed

section \<open>The Erlang loops compute the Poisson sum\<close>

lemma poisson_term_Suc: "poisson_term e x (Suc j) = poisson_term e x j * (x / real (Suc j))"
  by (simp add: poisson_term_def mult_ac)

lemma reliability_loop_Fin:
  "0 \<le> i \<Longrightarrow> term = (if i = 0 then e else poisson_term e (l * t) (nat (i - 1))) \<Longrightarrow>
   reliability_loop i k (Fin l) (Fin t) (Fin term) (Fin c) =
     Fin (c + (\<Sum>j = nat i..<nat k. poisson_term e (l * t) j))"
proof (induction i k "Fin l" "Fin t" "Fin term" "Fin c" arbitrary: "term" c rule: reliability_loop.induct)
  case (1 i k "term" c)
  show ?case
  proof (cases "i < k")
    case True
    define term' where "term' = poisson_term e (l * t) (nat i)"
    have step: "(if 0 < i then dmul (Fin term) (ddiv (dmul (Fin l) (Fin t)) (dint i)) else Fin term)
                = Fin term'"
    proof (cases "i = 0")
      case True
      then show ?thesis using "1.prems" by (simp add: term'_def poisson_term_def)
    next
      case False
      then have pos: "0 < i" using "1.prems" by simp
      then have ni: "nat i = Suc (nat (i - 1))" by simp
      have "real_of_int i = real (Suc (nat (i - 1)))" using pos by simp
      then show ?thesis
        using pos False "1.prems"(2) poisson_term_Suc[of e "l * t" "nat (i - 1)"]
        by (simp add: dint_def term'_def ni[symmetric])
    qed
    have IH: "reliability_loop (i + 1) k (Fin l) (Fin t) (Fin term') (Fin (c + term'))
              = Fin (c + term' + (\<Sum>j = nat (i + 1)..<nat k. poisson_term e (l * t) j))"
      using "1.hyps"[OF True, of term' "c + term'"] step "1.prems"(1)
      by (simp add: term'_def)
    have split: "(\<Sum>j = nat i..<nat k. poisson_term e (l * t) j)
                 = term' + (\<Sum>j = nat (i + 1)..<nat k. poisson_term e (l * t) j)"
    proof -
      have "nat i < nat k" using True "1.prems"(1) by simp
      moreover have "nat (i + 1) = Suc (nat i)" using "1.prems"(1) by simp
      ultimately show ?thesis by (simp add: sum.atLeast_Suc_lessThan term'_def)
    qed
    have "reliability_loop i k (Fin l) (Fin t) (Fin term) (Fin c)
          = reliability_loop (i + 1) k (Fin l) (Fin t) (Fin term') (Fin (c + term'))"
      using True step by (subst reliability_loop.simps) (simp add: Let_def)
    then show ?thesis using IH split by simp
  next
    case False
    then have "nat k \<le> nat i" by simp
    then show ?thesis using False by simp
  qed
qed

lemma poisson_survival_terms:
  "poisson_survival k lam t = (\<Sum>j<k. poisson_term (exp (- lam * t)) (lam * t) j)"
  by (simp add: poisson_survival_def poisson_term_def)

lemma ErlangModel_reliability_Fin:
  "ErlangModel_reliability (ErlangModel_new k (Fin l)) (Fin t)
   = Fin (1 - poisson_survival (nat k) l t)"
  using reliability_loop_Fin[of 0 "exp (- l * t)" "exp (- l * t)" l t k 0]
  by (simp add: ErlangModel_reliability_def ErlangModel_new_def dsub_def
      poisson_survival_terms atLeast0LessThan)

lemma erlang_reliability_loop_Fin:
  "0 \<le> i \<Longrightarrow> term = (if i = 0 then e else poisson_term e (l * t) (nat (i - 1))) \<Longrightarrow>
   erlang_reliability_loop i k (Fin l) (Fin t) (Fin term) (Fin c) =
     Fin (c + (\<Sum>j = nat i..<nat k. poisson_term e (l * t) j))"
proof (induction i k "Fin l" "Fin t" "Fin term" "Fin c" arbitrary: "term" c
    rule: erlang_reliability_loop.induct)
  case (1 i k "term" c)
  show ?case
  proof (cases "i \<le> k - 1")
    case True
    define term' where "term' = poisson_term e (l * t) (nat i)"
    have step: "(if 0 < i then ddiv (dmul (Fin term) (dmul (Fin l) (Fin t))) (dint i) else Fin term)
                = Fin term'"
    proof (cases "i = 0")
      case True
      then show ?thesis using "1.prems" by (simp add: term'_def poisson_term_def)
    next
      case False
      then have pos: "0 < i" using "1.prems" by simp
      then have ni: "nat i = Suc (nat (i - 1))" by simp
      have "real_of_int i = real (Suc (nat (i - 1)))" using pos by simp
      then show ?thesis
        using pos False "1.prems"(2) poisson_term_Suc[of e "l * t" "nat (i - 1)"]
        by (simp add: dint_def term'_def ni[symmetric])
    qed
    have IH: "erlang_reliability_loop (i + 1) k (Fin l) (Fin t) (Fin term') (Fin (c + term'))
              = Fin (c + term' + (\<Sum>j = nat (i + 1)..<nat k. poisson_term e (l * t) j))"
      using "1.hyps"[OF True, of term' "c + term'"] step "1.prems"(1)
      by (simp add: term'_def)
    have split: "(\<Sum>j = nat i..<nat k. poisson_term e (l * t) j)
                 = term' + (\<Sum>j = nat (i + 1)..<nat k. poisson_term e (l * t) j)"
    proof -
      have "nat i < nat k" using True "1.prems"(1) by simp
      moreover have "nat (i + 1) = Suc (nat i)" using "1.prems"(1) by simp
      ultimately show ?thesis by (simp add: sum.atLeast_Suc_lessThan term'_def)
    qed
    have "erlang_reliability_loop i k (Fin l) (Fin t) (Fin term) (Fin c)
          = erlang_reliability_loop (i + 1) k (Fin l) (Fin t) (Fin term') (Fin (c + term'))"
      using True step by (subst erlang_reliability_loop.simps) (simp add: Let_def)
    then show ?thesis using IH split by simp
  next
    case False
    then have "nat k \<le> nat i" by simp
    then show ?thesis using False by simp
  qed
qed

lemma erlang_reliability_Fin:
  "erlang_reliability k (Fin l) (Fin t) = Fin (1 - poisson_survival (nat k) l t)"
  using erlang_reliability_loop_Fin[of 0 "exp (- l * t)" "exp (- l * t)" l t k 0]
  by (simp add: erlang_reliability_def dsub_def poisson_survival_terms atLeast0LessThan)

text \<open>The Haskell functions over finite values.\<close>

lemma foldl_dmul_Fin: "foldl dmul (Fin a) (map dint ns) = Fin (a * (\<Prod>n\<leftarrow>ns. of_int n))"
  by (induction ns arbitrary: a) (simp_all add: dint_def mult.assoc)

lemma prod_list_upto_fact: "0 \<le> n \<Longrightarrow> (\<Prod>i\<leftarrow>[1..n]. real_of_int i) = fact (nat n)"
proof (induction n rule: int_ge_induct)
  case base
  then show ?case by simp
next
  case (step n)
  have "[1..n + 1] = [1..n] @ [n + 1]" using step.hyps by (simp add: upto_rec2)
  moreover have "nat (n + 1) = Suc (nat n)" using step.hyps by simp
  ultimately show ?case using step by (simp add: mult.commute add.commute)
qed

lemma factorial_Fin: "factorial n = Fin (fact (nat n))"
proof (cases "0 \<le> n")
  case True
  then show ?thesis by (simp add: factorial_def foldl_dmul_Fin prod_list_upto_fact)
next
  case False
  then show ?thesis by (simp add: factorial_def)
qed

lemma foldl_dadd_Fin: "foldl dadd (Fin a) (map (\<lambda>x. Fin (g x)) xs) = Fin (a + (\<Sum>x\<leftarrow>xs. g x))"
  by (induction xs arbitrary: a) (simp_all add: add.assoc)

lemma sum_list_upto_nat:
  "(\<Sum>i\<leftarrow>[0..k - 1]. g (nat i)) = (\<Sum>j<nat k. (g j :: real))"
proof (cases "0 \<le> k")
  case True
  then show ?thesis
  proof (induction k rule: int_ge_induct)
    case base
    then show ?case by simp
  next
    case (step k)
    have "[0..k + 1 - 1] = [0..k - 1] @ [k]" using step.hyps by (simp add: upto_rec2)
    moreover have "nat (k + 1) = Suc (nat k)" using step.hyps by simp
    ultimately show ?case using step by simp
  qed
next
  case False
  then show ?thesis by simp
qed

lemma erlangTerm_Fin:
  "0 \<le> i \<Longrightarrow> erlangTerm (Fin l) (Fin t) i = Fin (poisson_term (exp (- (l * t))) (l * t) (nat i))"
  by (simp add: erlangTerm_def factorial_Fin poisson_term_def)

lemma erlangReliability_Fin:
  assumes "0 \<le> t"
  shows "erlangReliability k (Fin l) (Fin t) = Fin (poisson_survival (nat k) l t)"
proof -
  have eq: "map (erlangTerm (Fin l) (Fin t)) [0..k - 1]
        = map (\<lambda>i. Fin (poisson_term (exp (- (l * t))) (l * t) (nat i))) [0..k - 1]"
    by (rule map_cong) (simp_all add: erlangTerm_Fin)
  have "foldl dadd (Fin 0) (map (erlangTerm (Fin l) (Fin t)) [0..k - 1])
        = Fin (0 + (\<Sum>i\<leftarrow>[0..k - 1]. poisson_term (exp (- (l * t))) (l * t) (nat i)))"
    unfolding eq by (rule foldl_dadd_Fin)
  also have "\<dots> = Fin (poisson_survival (nat k) l t)"
    using sum_list_upto_nat[of "poisson_term (exp (- (l * t))) (l * t)" k]
    by (simp add: poisson_survival_terms)
  finally have "foldl dadd (Fin 0) (map (erlangTerm (Fin l) (Fin t)) [0..k - 1])
        = Fin (poisson_survival (nat k) l t)" .
  then show ?thesis using assms
    by (simp add: erlangReliability_def erlangCDF_def dsub_def)
qed

section \<open>Scenario B: bounds on the exponential\<close>

lemma exp_minus_half_lower: "(2329/3840 :: real) \<le> exp (- (1/2))"
proof -
  obtain u :: real where
    "exp (- (1/2)) = (\<Sum>m<6. (- (1/2)) ^ m / fact m) + exp u / fact 6 * (- (1/2)) ^ 6"
    using Maclaurin_exp_le[of "- (1/2)" 6] by blast
  moreover have "(\<Sum>m<6. (- (1/2 :: real)) ^ m / fact m) = 2329/3840"
    by (simp add: lessThan_Suc numeral_eq_Suc fact_numeral) 
  moreover have "0 \<le> exp u / fact 6 * (- (1/2)) ^ 6" by simp
  ultimately show ?thesis by linarith
qed

lemma exp_minus_half_upper: "exp (- (1/2)) \<le> (27949/46080 :: real)"
proof -
  obtain u :: real where
    "exp (- (1/2)) = (\<Sum>m<7. (- (1/2)) ^ m / fact m) + exp u / fact 7 * (- (1/2)) ^ 7"
    using Maclaurin_exp_le[of "- (1/2)" 7] by blast
  moreover have "(\<Sum>m<7. (- (1/2 :: real)) ^ m / fact m) = 27949/46080"
    by (simp add: lessThan_Suc numeral_eq_Suc fact_numeral)
  moreover have "exp u / fact 7 * (- (1/2)) ^ 7 \<le> 0"
    by (simp add: mult_nonneg_nonpos divide_nonneg_pos)
  ultimately show ?thesis by linarith
qed

lemma poisson_survival_3: "poisson_survival 3 (5/10000) 1000 = 13/8 * exp (- (1/2))"
  by (simp add: poisson_survival_def lessThan_Suc numeral_eq_Suc)

lemma poisson_survival_scenario_B: "\<bar>poisson_survival 3 (5/10000) 1000 - 9856/10000\<bar> < 5/100000"
  using exp_minus_half_lower exp_minus_half_upper unfolding poisson_survival_3 by linarith

section \<open>Reliability at time zero and the one-stage model\<close>

lemma poisson_survival_at_zero: "0 < k \<Longrightarrow> poisson_survival k l 0 = 1"
proof (induction k)
  case 0
  then show ?case by simp
next
  case (Suc k)
  then show ?case by (cases k) (simp_all add: poisson_survival_def)
qed

lemma poisson_survival_one: "poisson_survival (Suc 0) l t = exp (- (l * t))"
  by (simp add: poisson_survival_def)

lemma ErlangModel_reliability_at_zero:
  "1 \<le> k \<Longrightarrow> ErlangModel_reliability (ErlangModel_new k (Fin l)) (Fin 0) = Fin 0"
  by (simp add: ErlangModel_reliability_Fin poisson_survival_at_zero)

lemma erlang_reliability_at_zero:
  "1 \<le> k \<Longrightarrow> erlang_reliability k (Fin l) (Fin 0) = Fin 0"
  by (simp add: erlang_reliability_Fin poisson_survival_at_zero)

lemma erlangReliability_at_zero:
  "1 \<le> k \<Longrightarrow> erlangReliability k (Fin l) (Fin 0) = Fin 1"
  by (simp add: erlangReliability_Fin poisson_survival_at_zero)

lemma ExponentialModel_reliability_at_zero:
  "ExponentialModel_reliability (ExponentialModel_new (Fin l)) (Fin 0) = Fin 1"
  by (simp add: ExponentialModel_reliability_def ExponentialModel_new_def)

lemma exponentialReliability_at_zero: "exponentialReliability (Fin l) (Fin 0) = Fin 1"
  by (simp add: exponentialReliability_def)

lemma dmul_one_right: "dmul a (Fin 1) = a"
  by (cases a) (simp_all add: inf_signed_def)

lemma ddiv_one_right: "ddiv a (Fin 1) = a"
  by (cases a) (simp_all add: inf_signed_def)

lemma dpow_one: "dpow a 1 = a"
  by (cases a) simp_all

lemma dpow_zero: "dpow a 0 = Fin 1"
  by (cases a) simp_all

lemma ErlangModel_mttf_one:
  "ErlangModel_mttf (ErlangModel_new 1 lam) = ExponentialModel_mtbf (ExponentialModel_new lam)"
  by (simp add: ErlangModel_mttf_def ErlangModel_new_def ExponentialModel_mtbf_def
      ExponentialModel_new_def dint_def)

lemma ErlangModel_pdf_one:
  "ErlangModel_pdf (ErlangModel_new 1 lam) t = ExponentialModel_pdf (ExponentialModel_new lam) t"
  by (simp add: ErlangModel_pdf_def ErlangModel_new_def ExponentialModel_pdf_def
      ExponentialModel_new_def ErlangModel_factorial_Fin dpow_one dpow_zero dmul_one_right
      ddiv_one_right)

lemma erlangReliability_one:
  "0 \<le> t \<Longrightarrow> erlangReliability 1 (Fin l) (Fin t) = exponentialReliability (Fin l) (Fin t)"
  by (simp add: erlangReliability_Fin poisson_survival_one exponentialReliability_def)

lemma erlangMTTF_one: "erlangMTTF 1 lam = exponentialMTBF lam"
  by (simp add: erlangMTTF_def exponentialMTBF_def dint_def)

section \<open>Claims about the survival models\<close>

text \<open>
  C1. The specification asks that the Erlang reliability be the Poisson survival sum
  \<open>R(t)\<close>, about \<open>0.9856\<close> at \<open>k = 3\<close>, \<open>\<lambda> = 0.0005\<close>, \<open>t = 1000\<close>. At that input the
  C++ \<open>ErlangModel::reliability\<close> and the Fortran \<open>erlang_reliability\<close> return
  \<open>1 - R(t)\<close>, about \<open>0.0144\<close>: they accumulate the sum in \<open>cdf\<close> and subtract it from one.
  The Haskell \<open>erlangReliability\<close> returns the sum itself.
\<close>

theorem C1_reliability_returns_failure_probability:
  "ErlangModel_reliability (ErlangModel_new 3 (Fin (5/10000))) (Fin 1000)
     = Fin (1 - poisson_survival 3 (5/10000) 1000)
   \<and> erlang_reliability 3 (Fin (5/10000)) (Fin 1000)
     = Fin (1 - poisson_survival 3 (5/10000) 1000)
   \<and> erlangReliability 3 (Fin (5/10000)) (Fin 1000) = Fin (poisson_survival 3 (5/10000) 1000)
   \<and> \<bar>poisson_survival 3 (5/10000) 1000 - 9856/10000\<bar> < 5/100000
   \<and> \<bar>(1 - poisson_survival 3 (5/10000) 1000) - 144/10000\<bar> < 5/100000"
proof -
  have a: "ErlangModel_reliability (ErlangModel_new 3 (Fin (5/10000))) (Fin 1000)
     = Fin (1 - poisson_survival 3 (5/10000) 1000)"
    using ErlangModel_reliability_Fin[of 3 "5/10000" 1000] by simp
  have b: "erlang_reliability 3 (Fin (5/10000)) (Fin 1000)
     = Fin (1 - poisson_survival 3 (5/10000) 1000)"
    using erlang_reliability_Fin[of 3 "5/10000" 1000] by simp
  have c: "erlangReliability 3 (Fin (5/10000)) (Fin 1000) = Fin (poisson_survival 3 (5/10000) 1000)"
    using erlangReliability_Fin[of 1000 3 "5/10000"] by simp
  have d: "\<bar>poisson_survival 3 (5/10000) 1000 - 9856/10000\<bar> < 5/100000"
    by (rule poisson_survival_scenario_B)
  have e: "\<bar>(1 - poisson_survival 3 (5/10000) 1000) - 144/10000\<bar> < 5/100000"
    using d by linarith
  show ?thesis using a b c d e by blast
qed

text \<open>
  C5. Reliability at \<open>t = 0\<close> should be one for both models. The Exponential model and
  the Haskell Erlang function return one; the C++ and Fortran Erlang functions return
  zero, by the subtraction of C1.
\<close>

theorem C5_ErlangModel_reliability_at_zero_is_zero:
  "ExponentialModel_reliability (ExponentialModel_new (Fin (5/10000))) (Fin 0) = Fin 1
   \<and> exponentialReliability (Fin (5/10000)) (Fin 0) = Fin 1
   \<and> erlangReliability 3 (Fin (5/10000)) (Fin 0) = Fin 1
   \<and> ErlangModel_reliability (ErlangModel_new 3 (Fin (5/10000))) (Fin 0) = Fin 0
   \<and> erlang_reliability 3 (Fin (5/10000)) (Fin 0) = Fin 0"
  by (simp add: ExponentialModel_reliability_at_zero exponentialReliability_at_zero
      erlangReliability_at_zero ErlangModel_reliability_at_zero erlang_reliability_at_zero)

text \<open>
  C2. The one-stage Erlang model should coincide with the Exponential model. In C++ the
  mean time to failure and the density coincide, but the reliability of the one-stage
  Erlang model is \<open>1 - e^(-\<lambda>t)\<close> where the Exponential model gives \<open>e^(-\<lambda>t)\<close>; the
  Haskell functions agree with each other.
\<close>

theorem C2_ErlangModel_one_stage_reliability_differs:
  "ErlangModel_reliability (ErlangModel_new 1 (Fin (5/10000))) (Fin 1000) = Fin (1 - exp (- (1/2)))
   \<and> ExponentialModel_reliability (ExponentialModel_new (Fin (5/10000))) (Fin 1000)
       = Fin (exp (- (1/2)))
   \<and> ErlangModel_reliability (ErlangModel_new 1 (Fin (5/10000))) (Fin 1000)
       \<noteq> ExponentialModel_reliability (ExponentialModel_new (Fin (5/10000))) (Fin 1000)
   \<and> ErlangModel_mttf (ErlangModel_new 1 (Fin (5/10000)))
       = ExponentialModel_mtbf (ExponentialModel_new (Fin (5/10000)))
   \<and> ErlangModel_pdf (ErlangModel_new 1 (Fin (5/10000))) (Fin 1000)
       = ExponentialModel_pdf (ExponentialModel_new (Fin (5/10000))) (Fin 1000)
   \<and> erlangReliability 1 (Fin (5/10000)) (Fin 1000)
       = exponentialReliability (Fin (5/10000)) (Fin 1000)"
proof -
  have a: "ErlangModel_reliability (ErlangModel_new 1 (Fin (5/10000))) (Fin 1000)
           = Fin (1 - exp (- (1/2)))"
    using ErlangModel_reliability_Fin[of 1 "5/10000" 1000] by (simp add: poisson_survival_one)
  have b: "ExponentialModel_reliability (ExponentialModel_new (Fin (5/10000))) (Fin 1000)
           = Fin (exp (- (1/2)))"
    by (simp add: ExponentialModel_reliability_def ExponentialModel_new_def)
  have "1 - exp (- (1/2)) \<noteq> exp (- (1/2 :: real))"
    using exp_minus_half_lower by linarith
  then have c: "ErlangModel_reliability (ErlangModel_new 1 (Fin (5/10000))) (Fin 1000)
       \<noteq> ExponentialModel_reliability (ExponentialModel_new (Fin (5/10000))) (Fin 1000)"
    unfolding a b by simp
  have d: "erlangReliability 1 (Fin (5/10000)) (Fin 1000)
       = exponentialReliability (Fin (5/10000)) (Fin 1000)"
    by (rule erlangReliability_one) simp
  show ?thesis using a b c d ErlangModel_mttf_one ErlangModel_pdf_one by blast
qed

section \<open>Claims about the maintenance queue\<close>



text \<open>The instability test over all doubles, also for a zero divisor.\<close>

lemma dge_not_dless: "dge a (Fin 1) \<Longrightarrow> \<not> dless a (Fin 1)"
  by (cases a) (simp_all add: dge_def)

lemma dless_not_dge: "dless a (Fin 1) \<Longrightarrow> \<not> dge a (Fin 1)"
  by (cases a) (simp_all add: dge_def)

lemma unstable_queue_general:
  assumes "dge (ddiv arrival (dmul (dint servers) service)) (Fin 1)"
  shows "calculateQueueMetrics arrival service servers = None"
    and "\<not> QueueingModel_isStable (QueueingModel_new arrival service servers)"
    and "QueueingModel_avgQueueLength (QueueingModel_new arrival service servers) = Fin (- 1)"
    and "QueueingModel_avgWaitTime (QueueingModel_new arrival service servers) = Fin (- 1)"
    and "avg_queue (analyze_maintenance_queue arrival service servers) = Fin (- 1)"
    and "avg_wait (analyze_maintenance_queue arrival service servers) = Fin (- 1)"
proof -
  show "calculateQueueMetrics arrival service servers = None"
    unfolding calculateQueueMetrics_def Let_def using assms by simp
  show u: "\<not> QueueingModel_isStable (QueueingModel_new arrival service servers)"
    using dge_not_dless[OF assms] by (simp add: QueueingModel_isStable_def QueueingModel_new_def)
  show "QueueingModel_avgQueueLength (QueueingModel_new arrival service servers) = Fin (- 1)"
    using u by (simp add: QueueingModel_avgQueueLength_def)
  show "QueueingModel_avgWaitTime (QueueingModel_new arrival service servers) = Fin (- 1)"
    using u by (simp add: QueueingModel_avgWaitTime_def)
  show "avg_queue (analyze_maintenance_queue arrival service servers) = Fin (- 1)"
    unfolding analyze_maintenance_queue_def Let_def using assms by simp
  show "avg_wait (analyze_maintenance_queue arrival service servers) = Fin (- 1)"
    unfolding analyze_maintenance_queue_def Let_def using assms by simp
qed

lemma stable_queue_utilization_general:
  assumes "dless (ddiv arrival (dmul (dint servers) service)) (Fin 1)"
  shows "\<exists>qm. calculateQueueMetrics arrival service servers = Some qm
      \<and> utilization qm = dmul (ddiv arrival (dmul (dint servers) service)) (Fin 100)"
    and "QueueingModel_getUtilization (QueueingModel_new arrival service servers)
         = ddiv arrival (dmul (dint servers) service)"
proof -
  show "\<exists>qm. calculateQueueMetrics arrival service servers = Some qm
      \<and> utilization qm = dmul (ddiv arrival (dmul (dint servers) service)) (Fin 100)"
    unfolding calculateQueueMetrics_def Let_def using dless_not_dge[OF assms] by simp
  show "QueueingModel_getUtilization (QueueingModel_new arrival service servers)
         = ddiv arrival (dmul (dint servers) service)"
    by (simp add: QueueingModel_getUtilization_def QueueingModel_new_def)
qed




text \<open>
  C10. On the stable branch, that is whenever the Haskell \<open>calculateQueueMetrics\<close> returns
  a record, its utilization is \<open>\<rho>\<close> times one hundred, where \<open>\<rho>\<close> is what the C++
  \<open>getUtilization\<close> returns for the same arguments. The two outputs coincide only when that
  \<open>\<rho>\<close> is zero (or \<open>-\<infinity>\<close> or \<open>NaN\<close>), so they differ whenever it is a positive number. The
  statement is about the outcome of the call, so it does not depend on which side of one
  a rounded quotient falls.
\<close>

theorem C10_utilization_percent_and_fraction:
  assumes "calculateQueueMetrics arrival service servers = Some qm"
  shows "utilization qm
           = dmul (QueueingModel_getUtilization (QueueingModel_new arrival service servers)) (Fin 100)
    \<and> QueueingModel_getUtilization (QueueingModel_new arrival service servers)
           = ddiv arrival (dmul (dint servers) service)
    \<and> (utilization qm = QueueingModel_getUtilization (QueueingModel_new arrival service servers)
          \<longrightarrow> QueueingModel_getUtilization (QueueingModel_new arrival service servers)
                \<in> {Fin 0, NInf, NaN})"
proof -
  have g: "QueueingModel_getUtilization (QueueingModel_new arrival service servers)
           = ddiv arrival (dmul (dint servers) service)"
    by (simp add: QueueingModel_getUtilization_def QueueingModel_new_def)
  have u: "utilization qm = dmul (ddiv arrival (dmul (dint servers) service)) (Fin 100)"
    using assms unfolding calculateQueueMetrics_def Let_def
    by (auto split: if_splits)
  have d: "dmul x (Fin 100) = x \<longrightarrow> x \<in> {Fin 0, NInf, NaN}" if "\<not> dge x (Fin 1)" for x
    using that by (cases x) (simp_all add: dge_def inf_signed_def)
  have s: "\<not> dge (ddiv arrival (dmul (dint servers) service)) (Fin 1)"
    using assms unfolding calculateQueueMetrics_def Let_def
    by (auto split: if_splits)
  show ?thesis using g u d[OF s] by simp
qed

text \<open>
  Scenario C (arrival rate 0.05, service rate 0.15, three servers) returns a record:
  \<open>\<rho> = 1/9\<close>, reported as \<open>100/9\<close> by Haskell and as \<open>1/9\<close> by C++. With no arrivals a
  record is returned too, and both outputs are zero.
\<close>

theorem C10_utilization_witness:
  "(\<exists>qm. calculateQueueMetrics (Fin (5/100)) (Fin (15/100)) 3 = Some qm
      \<and> utilization qm = Fin (100 / 9)
      \<and> QueueingModel_getUtilization (QueueingModel_new (Fin (5/100)) (Fin (15/100)) 3)
          = Fin (1 / 9))
   \<and> (\<exists>qm. calculateQueueMetrics (Fin 0) (Fin (15/100)) 3 = Some qm
      \<and> utilization qm
          = QueueingModel_getUtilization (QueueingModel_new (Fin 0) (Fin (15/100)) 3)
      \<and> QueueingModel_getUtilization (QueueingModel_new (Fin 0) (Fin (15/100)) 3) = Fin 0)"
proof -
  have "dless (ddiv (Fin (5/100)) (dmul (dint 3) (Fin (15/100)))) (Fin 1)"
    by (simp add: dint_def)
  then obtain qm where qm: "calculateQueueMetrics (Fin (5/100)) (Fin (15/100)) 3 = Some qm"
    using stable_queue_utilization_general(1) by blast
  have r: "ddiv (Fin (5/100)) (dmul (dint 3) (Fin (15/100))) = Fin (1/9)"
    by (simp add: dint_def)
  have a: "utilization qm = Fin (100 / 9)
      \<and> QueueingModel_getUtilization (QueueingModel_new (Fin (5/100)) (Fin (15/100)) 3)
          = Fin (1 / 9)"
    using C10_utilization_percent_and_fraction[OF qm] unfolding r by simp
  have "dless (ddiv (Fin 0) (dmul (dint 3) (Fin (15/100)))) (Fin 1)"
    by (simp add: dint_def)
  then obtain qz where qz: "calculateQueueMetrics (Fin 0) (Fin (15/100)) 3 = Some qz"
    using stable_queue_utilization_general(1) by blast
  have z: "ddiv (Fin 0) (dmul (dint 3) (Fin (15/100))) = Fin 0"
    by (simp add: dint_def)
  have b: "utilization qz
          = QueueingModel_getUtilization (QueueingModel_new (Fin 0) (Fin (15/100)) 3)
      \<and> QueueingModel_getUtilization (QueueingModel_new (Fin 0) (Fin (15/100)) 3) = Fin 0"
    using C10_utilization_percent_and_fraction[OF qz] unfolding z by simp
  show ?thesis using qm a qz b by blast
qed

section \<open>Claims about the fleet and the cascade analysis\<close>

lemma foldl_addSensor_sensors: "sensors (foldl addSensor m xs) = sensors m @ xs"
  by (induction xs arbitrary: m) (simp_all add: addSensor_def)

lemma foldl_addSensor_exponentialModels:
  "exponentialModels (foldl addSensor m xs)
   = exponentialModels m @ map (\<lambda>s. ExponentialModel_new (failureRate s)) xs"
  by (induction xs arbitrary: m) (simp_all add: addSensor_def)

lemma foldl_addSensor_erlangModels:
  "erlangModels (foldl addSensor m xs)
   = erlangModels m @ map (\<lambda>s. ErlangModel_new (kStages s) (failureRate s)) xs"
  by (induction xs arbitrary: m) (simp_all add: addSensor_def)

lemma sensors_manager_of: "sensors (manager_of xs) = xs"
  by (simp add: manager_of_def foldl_addSensor_sensors FleetReliabilityManager_new_def)

lemma foldl_count_failures:
  "foldl (\<lambda>n sensor. if dless (health sensor) (Fin 30) then n + 1 else n) (n0::int) xs
   = n0 + int (length (filter (\<lambda>s. dless (health s) (Fin 30)) xs))"
  by (induction xs arbitrary: n0) simp_all

lemma foldl_getSensorStats_failed:
  "failed (foldl getSensorStats_step st xs)
   = failed st + int (length (filter (\<lambda>s. \<not> dgt (health s) (Fin 30)) xs))"
proof (induction xs arbitrary: st)
  case Nil
  then show ?case by simp
next
  case (Cons x xs)
  have "dgt (health x) (Fin 70) \<Longrightarrow> dgt (health x) (Fin 30)"
    by (cases "health x") (simp_all add: dgt_def)
  then show ?case using Cons[of "getSensorStats_step st x"]
    by (auto simp: getSensorStats_step_def)
qed

lemma getSensorStats_failed:
  "failed (getSensorStats m) = int (length (filter (\<lambda>s. \<not> dgt (health s) (Fin 30)) (sensors m)))"
  by (simp add: getSensorStats_def foldl_getSensorStats_failed)

lemma analyzeCascadeRisk_cpp_currentFailures:
  "cr_currentFailures (analyzeCascadeRisk_cpp m)
   = int (length (filter (\<lambda>s. dless (health s) (Fin 30)) (sensors m)))"
  by (simp add: analyzeCascadeRisk_cpp_def Let_def foldl_count_failures)

lemma analyzeCascadeRisk_currentFailures:
  "currentFailures (analyzeCascadeRisk xs)
   = int (length (filter (\<lambda>s. dless (health s) (Fin 30)) xs))"
  by (simp add: analyzeCascadeRisk_def Let_def)

lemma trunc_toward_zero_3_2: "trunc_toward_zero (3/2) = 1"
  by (simp add: trunc_toward_zero_def)

lemma round_half_even_3_2: "round_half_even (3/2) = 2"
  by (simp add: round_half_even_def trunc_toward_zero_def Let_def)

text \<open>
  The failed tier and the cascade count differ by the sensors that are neither above nor
  below 30: those with health exactly 30 (and those with a \<open>NaN\<close> health).
\<close>

lemma failed_tier_and_cascade_count:
  "failed (getSensorStats m) - cr_currentFailures (analyzeCascadeRisk_cpp m)
   = int (length (filter (\<lambda>s. \<not> dgt (health s) (Fin 30) \<and> \<not> dless (health s) (Fin 30)) (sensors m)))"
proof -
  have "length (filter (\<lambda>s. \<not> dgt (health s) (Fin 30)) xs)
        = length (filter (\<lambda>s. dless (health s) (Fin 30)) xs)
          + length (filter (\<lambda>s. \<not> dgt (health s) (Fin 30) \<and> \<not> dless (health s) (Fin 30)) xs)"
    for xs :: "Sensor list"
  proof (induction xs)
    case Nil
    then show ?case by simp
  next
    case (Cons x xs)
    have "dless (health x) (Fin 30) \<Longrightarrow> \<not> dgt (health x) (Fin 30)"
      by (cases "health x") (simp_all add: dgt_def)
    then show ?case using Cons by auto
  qed
  then show ?thesis
    by (simp add: getSensorStats_failed analyzeCascadeRisk_cpp_currentFailures)
qed

text \<open>
  C6. The failed tier counts the sensors with health at most 30; the cascade analysis
  should consume that count. In C++ and Haskell it counts the sensors with health below 30
  instead, so a sensor with health exactly 30 is in the failed tier (one failed sensor)
  and is no current failure (zero). The Fortran program passes the tier count on, as the
  claim says.
\<close>

theorem C6_health_thirty_failed_but_not_a_current_failure:
  "failed (getSensorStats (manager_of [probe_sensor 30])) = 1
   \<and> cr_currentFailures (analyzeCascadeRisk_cpp (manager_of [probe_sensor 30])) = 0
   \<and> failedSensors (calculateFleetMetrics [probe_sensor 30] (Fin 1000)) = 1
   \<and> classifySensor (probe_sensor 30) = Failed
   \<and> currentFailures (analyzeCascadeRisk [probe_sensor 30]) = 0
   \<and> risk_factor (main_cascade 1 [Fin 30]) = Fin 1"
proof -
  have h: "health (probe_sensor 30) = Fin 30" by (simp add: probe_sensor_def)
  have a: "failed (getSensorStats (manager_of [probe_sensor 30])) = 1"
    by (simp add: getSensorStats_failed sensors_manager_of h dgt_def)
  have b: "cr_currentFailures (analyzeCascadeRisk_cpp (manager_of [probe_sensor 30])) = 0"
    by (simp add: analyzeCascadeRisk_cpp_currentFailures sensors_manager_of h)
  have c: "failedSensors (calculateFleetMetrics [probe_sensor 30] (Fin 1000)) = 1"
    by (simp add: calculateFleetMetrics_def h)
  have d: "classifySensor (probe_sensor 30) = Failed"
    by (simp add: classifySensor_def h dgt_def)
  have e: "currentFailures (analyzeCascadeRisk [probe_sensor 30]) = 0"
    by (simp add: analyzeCascadeRisk_currentFailures h)
  have f: "risk_factor (main_cascade 1 [Fin 30]) = Fin 1"
    by (simp add: main_cascade_def classify_sensors_by_health_def classify_step_def dgt_def
        analyze_cascade_risk_def dint_def)
  show ?thesis using a b c d e f by blast
qed

lemma probe_fleet_length: "length probe_fleet = 50"
  by (simp add: probe_fleet_def)

lemma probe_fleet_failures:
  "length (filter (\<lambda>s. dless (health s) (Fin 30)) probe_fleet) = 5"
  by (simp add: probe_fleet_def probe_sensor_def)

lemma foldl_getSensorStats_total:
  "total (foldl getSensorStats_step st xs) = total st"
  by (induction xs arbitrary: st) (simp_all add: getSensorStats_step_def)

lemma getSensorStats_total: "total (getSensorStats m) = int (length (sensors m))"
  by (simp add: getSensorStats_def foldl_getSensorStats_total)

lemma boundary_fleet_length: "length boundary_fleet = 50"
  by (simp add: boundary_fleet_def)

lemma boundary_fleet_below_30:
  "length (filter (\<lambda>s. dless (health s) (Fin 30)) boundary_fleet) = 4"
  by (simp add: boundary_fleet_def probe_sensor_def)

lemma boundary_fleet_not_above_30:
  "length (filter (\<lambda>s. \<not> dgt (health s) (Fin 30)) boundary_fleet) = 5"
  by (simp add: boundary_fleet_def probe_sensor_def dgt_def)

lemma boundary_fleet_at_most_30:
  "length (filter (\<lambda>s. dle (health s) (Fin 30)) boundary_fleet) = 5"
  by (simp add: boundary_fleet_def probe_sensor_def)

lemma dgt_quotient:
  "0 < n \<Longrightarrow> dgt (ddiv (dint f) (dint n)) (Fin (p / q)) = (p / q < of_int f / of_int n)"
  by (simp add: dgt_def dint_def)

lemma risk_thresholds:
  assumes "0 < n"
  shows "dgt (ddiv (dint f) (dint n)) (Fin (2/10)) = (n < 5 * f)"
    and "dgt (ddiv (dint f) (dint n)) (Fin (1/10)) = (n < 10 * f)"
    and "dgt (ddiv (dint f) (dint n)) (Fin (15/100)) = (15 * n < 100 * f)"
    and "dgt (ddiv (dint f) (dint n)) (Fin (8/100)) = (8 * n < 100 * f)"
proof -
  have n: "0 < (of_int n :: real)" using assms by simp
  have a: "(2/10 < (of_int f :: real) / of_int n) = (n < 5 * f)"
  proof -
    have "(2/10 < (of_int f :: real) / of_int n) = (of_int n * 2 < (of_int f :: real) * 10)"
      using n by (simp add: field_simps)
    also have "\<dots> = ((of_int (n * 2) :: real) < of_int (f * 10))" by simp
    also have "\<dots> = (n * 2 < f * 10)" by (simp only: of_int_less_iff)
    also have "\<dots> = (n < 5 * f)" by presburger
    finally show ?thesis .
  qed
  have b: "(1/10 < (of_int f :: real) / of_int n) = (n < 10 * f)"
  proof -
    have "(1/10 < (of_int f :: real) / of_int n) = (of_int n < (of_int f :: real) * 10)"
      using n by (simp add: field_simps)
    also have "\<dots> = ((of_int n :: real) < of_int (f * 10))" by simp
    also have "\<dots> = (n < f * 10)" by (simp only: of_int_less_iff)
    also have "\<dots> = (n < 10 * f)" by presburger
    finally show ?thesis .
  qed
  have c: "(15/100 < (of_int f :: real) / of_int n) = (15 * n < 100 * f)"
  proof -
    have "(15/100 < (of_int f :: real) / of_int n) = (of_int n * 15 < (of_int f :: real) * 100)"
      using n by (simp add: field_simps)
    also have "\<dots> = ((of_int (n * 15) :: real) < of_int (f * 100))" by simp
    also have "\<dots> = (n * 15 < f * 100)" by (simp only: of_int_less_iff)
    also have "\<dots> = (15 * n < 100 * f)" by presburger
    finally show ?thesis .
  qed
  have d: "(8/100 < (of_int f :: real) / of_int n) = (8 * n < 100 * f)"
  proof -
    have "(8/100 < (of_int f :: real) / of_int n) = (of_int n * 8 < (of_int f :: real) * 100)"
      using n by (simp add: field_simps)
    also have "\<dots> = ((of_int (n * 8) :: real) < of_int (f * 100))" by simp
    also have "\<dots> = (n * 8 < f * 100)" by (simp only: of_int_less_iff)
    also have "\<dots> = (8 * n < 100 * f)" by presburger
    finally show ?thesis .
  qed
  have q: "dgt (ddiv (dint f) (dint n)) (Fin (p / q)) = (p / q < of_int f / of_int n)" for p q
    by (rule dgt_quotient[OF assms])
  have g1: "dgt (ddiv (dint f) (dint n)) (Fin (2/10)) = (n < 5 * f)"
    by (simp only: q a)
  have g2: "dgt (ddiv (dint f) (dint n)) (Fin (1/10)) = (n < 10 * f)"
    by (simp only: q b)
  have g3: "dgt (ddiv (dint f) (dint n)) (Fin (15/100)) = (15 * n < 100 * f)"
    by (simp only: q c)
  have g4: "dgt (ddiv (dint f) (dint n)) (Fin (8/100)) = (8 * n < 100 * f)"
    by (simp only: q d)
  show "dgt (ddiv (dint f) (dint n)) (Fin (2/10)) = (n < 5 * f)"
    by (simp only: q a)
  show "dgt (ddiv (dint f) (dint n)) (Fin (1/10)) = (n < 10 * f)"
    by (simp only: q b)
  show "dgt (ddiv (dint f) (dint n)) (Fin (15/100)) = (15 * n < 100 * f)"
    by (simp only: q c)
  show "dgt (ddiv (dint f) (dint n)) (Fin (8/100)) = (8 * n < 100 * f)"
    by (simp only: q d)
qed

text \<open>
  The tiers of the three cascade analyses, on the count each of them consumes: every
  comparison is strict, so a risk factor equal to a threshold stays in the lower tier.
\<close>

lemma analyze_cascade_risk_thresholds:
  assumes "0 < n"
  shows "dep_mult (analyze_cascade_risk f n)
           = Fin (if n < 5 * f then 15/10 else if n < 10 * f then 12/10 else 1)"
    and "risk_level (analyze_cascade_risk f n)
           = (if 15 * n < 100 * f then ''HIGH'' else if 8 * n < 100 * f then ''MEDIUM'' else ''LOW'')"
  unfolding analyze_cascade_risk_def Let_def risk_thresholds[OF assms] by simp_all

lemma analyzeCascadeRisk_cpp_thresholds:
  assumes "sensors m \<noteq> []"
    and "f = int (length (filter (\<lambda>s. dless (health s) (Fin 30)) (sensors m)))"
    and "n = int (length (sensors m))"
  shows "cr_riskFactor (analyzeCascadeRisk_cpp m) = Fin (of_int f / of_int n)"
    and "cr_dependencyMultiplier (analyzeCascadeRisk_cpp m)
           = Fin (if n < 5 * f then 15/10 else if n < 10 * f then 12/10 else 1)"
    and "cr_riskLevel (analyzeCascadeRisk_cpp m)
           = (if 15 * n < 100 * f then ''HIGH'' else if 8 * n < 100 * f then ''MEDIUM'' else ''LOW'')"
proof -
  have n: "0 < n" using assms(1,3) by simp
  have c: "foldl (\<lambda>n sensor. if dless (health sensor) (Fin 30) then n + 1 else n) 0 (sensors m) = f"
    by (simp add: foldl_count_failures assms(2))
  show "cr_riskFactor (analyzeCascadeRisk_cpp m) = Fin (of_int f / of_int n)"
    unfolding analyzeCascadeRisk_cpp_def Let_def c assms(3)[symmetric] using n
    by (simp add: dint_def)
  show "cr_dependencyMultiplier (analyzeCascadeRisk_cpp m)
           = Fin (if n < 5 * f then 15/10 else if n < 10 * f then 12/10 else 1)"
    unfolding analyzeCascadeRisk_cpp_def Let_def c assms(3)[symmetric] risk_thresholds[OF n]
    by simp
  show "cr_riskLevel (analyzeCascadeRisk_cpp m)
           = (if 15 * n < 100 * f then ''HIGH'' else if 8 * n < 100 * f then ''MEDIUM'' else ''LOW'')"
    unfolding analyzeCascadeRisk_cpp_def Let_def c assms(3)[symmetric] risk_thresholds[OF n]
    by simp
qed

lemma analyzeCascadeRisk_thresholds:
  assumes "snsrs \<noteq> []"
    and "f = int (length (filter (\<lambda>s. dless (health s) (Fin 30)) snsrs))"
    and "n = int (length snsrs)"
  shows "cascadeRiskFactor (analyzeCascadeRisk snsrs) = Fin (of_int f / of_int n)"
    and "dependencyMultiplier (analyzeCascadeRisk snsrs)
           = Fin (if n < 5 * f then 15/10 else if n < 10 * f then 12/10 else 1)"
    and "riskLevel (analyzeCascadeRisk snsrs)
           = (if 15 * n < 100 * f then High else if 8 * n < 100 * f then Medium else Low)"
proof -
  have n: "0 < n" using assms(1,3) by simp
  show "cascadeRiskFactor (analyzeCascadeRisk snsrs) = Fin (of_int f / of_int n)"
    unfolding analyzeCascadeRisk_def Let_def assms(2,3)[symmetric] using n
    by (simp add: dint_def)
  show "dependencyMultiplier (analyzeCascadeRisk snsrs)
           = Fin (if n < 5 * f then 15/10 else if n < 10 * f then 12/10 else 1)"
    unfolding analyzeCascadeRisk_def Let_def assms(2,3)[symmetric] risk_thresholds[OF n]
    by simp
  show "riskLevel (analyzeCascadeRisk snsrs)
           = (if 15 * n < 100 * f then High else if 8 * n < 100 * f then Medium else Low)"
    unfolding analyzeCascadeRisk_def Let_def assms(2,3)[symmetric] risk_thresholds[OF n]
    by simp
qed

text \<open>
  C7. With a failed count of five among fifty sensors the cascade analysis should return
  the risk factor \<open>0.10\<close>, the multiplier \<open>1.0\<close> and the level MEDIUM. On a fleet of fifty
  whose failed tier holds five sensors, one of them at health exactly 30, the C++ and the
  Haskell analysis count four failures (the comparison \<open>health < 30\<close> of C6) and return
  the risk factor \<open>0.08\<close> and the level LOW, since \<open>0.08 > 0.08\<close> is false. The Fortran
  program, which passes the tier count on, returns \<open>0.10\<close>, \<open>1.0\<close> and MEDIUM on the same
  fleet.
\<close>

theorem C7_failed_tier_five_of_fifty_is_low:
  "failed (getSensorStats (manager_of boundary_fleet)) = 5
   \<and> total (getSensorStats (manager_of boundary_fleet)) = 50
   \<and> cr_currentFailures (analyzeCascadeRisk_cpp (manager_of boundary_fleet)) = 4
   \<and> cr_riskFactor (analyzeCascadeRisk_cpp (manager_of boundary_fleet)) = Fin (8/100)
   \<and> cr_dependencyMultiplier (analyzeCascadeRisk_cpp (manager_of boundary_fleet)) = Fin 1
   \<and> cr_riskLevel (analyzeCascadeRisk_cpp (manager_of boundary_fleet)) = ''LOW''
   \<and> failedSensors (calculateFleetMetrics boundary_fleet (Fin 1000)) = 5
   \<and> totalSensors (calculateFleetMetrics boundary_fleet (Fin 1000)) = 50
   \<and> currentFailures (analyzeCascadeRisk boundary_fleet) = 4
   \<and> cascadeRiskFactor (analyzeCascadeRisk boundary_fleet) = Fin (8/100)
   \<and> dependencyMultiplier (analyzeCascadeRisk boundary_fleet) = Fin 1
   \<and> riskLevel (analyzeCascadeRisk boundary_fleet) = Low
   \<and> risk_factor (main_cascade 50 (map health boundary_fleet)) = Fin (1/10)
   \<and> dep_mult (main_cascade 50 (map health boundary_fleet)) = Fin 1
   \<and> risk_level (main_cascade 50 (map health boundary_fleet)) = ''MEDIUM''"
proof -
  have ne: "sensors (manager_of boundary_fleet) \<noteq> []" "boundary_fleet \<noteq> []"
    by (simp_all add: sensors_manager_of boundary_fleet_def)
  have a: "failed (getSensorStats (manager_of boundary_fleet)) = 5"
    by (simp add: getSensorStats_failed sensors_manager_of boundary_fleet_not_above_30)
  have b: "total (getSensorStats (manager_of boundary_fleet)) = 50"
    by (simp add: getSensorStats_total sensors_manager_of boundary_fleet_length)
  have c: "cr_currentFailures (analyzeCascadeRisk_cpp (manager_of boundary_fleet)) = 4"
    by (simp add: analyzeCascadeRisk_cpp_currentFailures sensors_manager_of
        boundary_fleet_below_30)
  have f4: "(4::int) = int (length (filter (\<lambda>s. dless (health s) (Fin 30))
              (sensors (manager_of boundary_fleet))))"
    by (simp add: sensors_manager_of boundary_fleet_below_30)
  have n50: "(50::int) = int (length (sensors (manager_of boundary_fleet)))"
    by (simp add: sensors_manager_of boundary_fleet_length)
  have d: "cr_riskFactor (analyzeCascadeRisk_cpp (manager_of boundary_fleet)) = Fin (8/100)"
    using analyzeCascadeRisk_cpp_thresholds(1)[OF ne(1) f4 n50] by simp
  have e: "cr_dependencyMultiplier (analyzeCascadeRisk_cpp (manager_of boundary_fleet)) = Fin 1"
    using analyzeCascadeRisk_cpp_thresholds(2)[OF ne(1) f4 n50] by simp
  have f: "cr_riskLevel (analyzeCascadeRisk_cpp (manager_of boundary_fleet)) = ''LOW''"
    using analyzeCascadeRisk_cpp_thresholds(3)[OF ne(1) f4 n50] by simp
  have g: "failedSensors (calculateFleetMetrics boundary_fleet (Fin 1000)) = 5"
    by (simp add: calculateFleetMetrics_def boundary_fleet_at_most_30)
  have h: "totalSensors (calculateFleetMetrics boundary_fleet (Fin 1000)) = 50"
    by (simp add: calculateFleetMetrics_def boundary_fleet_length)
  have i: "currentFailures (analyzeCascadeRisk boundary_fleet) = 4"
    by (simp add: analyzeCascadeRisk_currentFailures boundary_fleet_below_30)
  have f4': "(4::int) = int (length (filter (\<lambda>s. dless (health s) (Fin 30)) boundary_fleet))"
    by (simp add: boundary_fleet_below_30)
  have n50': "(50::int) = int (length boundary_fleet)"
    by (simp add: boundary_fleet_length)
  have j: "cascadeRiskFactor (analyzeCascadeRisk boundary_fleet) = Fin (8/100)"
    using analyzeCascadeRisk_thresholds(1)[OF ne(2) f4' n50'] by simp
  have k: "dependencyMultiplier (analyzeCascadeRisk boundary_fleet) = Fin 1"
    using analyzeCascadeRisk_thresholds(2)[OF ne(2) f4' n50'] by simp
  have l: "riskLevel (analyzeCascadeRisk boundary_fleet) = Low"
    using analyzeCascadeRisk_thresholds(3)[OF ne(2) f4' n50'] by simp
  have cl: "classify_sensors_by_health 50 (map health boundary_fleet) = (45, 0, 5)"
    by (simp add: classify_sensors_by_health_def boundary_fleet_def probe_sensor_def
        classify_step_def dgt_def numeral_eq_Suc)
  have mc: "main_cascade 50 (map health boundary_fleet) = analyze_cascade_risk 5 50"
    by (simp add: main_cascade_def cl)
  have m: "risk_factor (main_cascade 50 (map health boundary_fleet)) = Fin (1/10)"
    unfolding mc by (simp add: analyze_cascade_risk_def Let_def dint_def)
  have n: "dep_mult (main_cascade 50 (map health boundary_fleet)) = Fin 1"
    unfolding mc using analyze_cascade_risk_thresholds(1)[of 50 5] by simp
  have o: "risk_level (main_cascade 50 (map health boundary_fleet)) = ''MEDIUM''"
    unfolding mc using analyze_cascade_risk_thresholds(2)[of 50 5] by simp
  show ?thesis using a b c d e f g h i j k l m n o by blast
qed

text \<open>
  C9. There is a fleet on which truncation and rounding differ: with five failures among
  fifty sensors the product \<open>5 * 1.0 * 0.3 = 1.5\<close> has fractional part one half; C++ and
  Fortran truncate it to 1, Haskell and R round it to 2.
\<close>

theorem C9_truncation_and_rounding_disagree:
  "cr_currentFailures (analyzeCascadeRisk_cpp (manager_of probe_fleet)) = 5
   \<and> cr_dependencyMultiplier (analyzeCascadeRisk_cpp (manager_of probe_fleet)) = Fin 1
   \<and> (1/2 :: real) \<le> frac (5 * 1 * (3/10))
   \<and> cr_expectedAdditional (analyzeCascadeRisk_cpp (manager_of probe_fleet)) = 1
   \<and> expected_additional (main_cascade 50 (map health probe_fleet)) = 1
   \<and> expectedAdditionalFailures (analyzeCascadeRisk probe_fleet) = 2
   \<and> (\<exists>r. analyze_cascade_risk_R (replicate 5 20 @ replicate 45 80) = Inr r
          \<and> expected_additional_failures r = 2)"
proof -
  have cpp: "analyzeCascadeRisk_cpp (manager_of probe_fleet)
      = \<lparr> cr_currentFailures = 5, cr_riskFactor = Fin (1/10), cr_expectedAdditional = 1,
          cr_riskLevel = ''MEDIUM'', cr_dependencyMultiplier = Fin 1 \<rparr>"
    by (simp add: analyzeCascadeRisk_cpp_def Let_def foldl_count_failures sensors_manager_of
        probe_fleet_length probe_fleet_failures dint_def dgt_def trunc_toward_zero_3_2)
  have hs: "expectedAdditionalFailures (analyzeCascadeRisk probe_fleet) = 2"
    by (simp add: analyzeCascadeRisk_def Let_def probe_fleet_length probe_fleet_failures
        dint_def dgt_def round_half_even_3_2)
  have fr: "(1/2 :: real) \<le> frac (5 * 1 * (3/10))"
  proof -
    have "frac (3/2 :: real) = 1/2" by (simp add: frac_def)
    then show ?thesis by simp
  qed
  have cl: "classify_sensors_by_health 50 (map health probe_fleet) = (45, 0, 5)"
    by (simp add: classify_sensors_by_health_def probe_fleet_def probe_sensor_def
        classify_step_def dgt_def numeral_eq_Suc)
  have f: "expected_additional (main_cascade 50 (map health probe_fleet)) = 1"
    by (simp add: main_cascade_def cl analyze_cascade_risk_def Let_def dint_def dgt_def
        trunc_toward_zero_3_2)
  have r: "\<exists>r. analyze_cascade_risk_R (replicate 5 20 @ replicate 45 80) = Inr r
          \<and> expected_additional_failures r = 2"
    by (simp add: analyze_cascade_risk_R_def Let_def round_half_even_3_2)
  show ?thesis unfolding cpp using hs fr f r by simp
qed

text \<open>
  C4, as stated: an empty fleet is refused with an \<open>EmptyFleet\<close> error and no number is
  returned. On the freshly constructed manager and on the empty list the means and the
  risk factor are \<open>0/0 = NaN\<close>, and a risk level is returned all the same.
\<close>

theorem C4_empty_fleet_counterexample:
  "calculateFleetMTBF FleetReliabilityManager_new = NaN
   \<and> cr_riskFactor (analyzeCascadeRisk_cpp FleetReliabilityManager_new) = NaN
   \<and> cr_riskLevel (analyzeCascadeRisk_cpp FleetReliabilityManager_new) = ''LOW''
   \<and> average [] = NaN
   \<and> riskLevel (analyzeCascadeRisk []) = Low"
  by (simp add: calculateFleetMTBF_def FleetReliabilityManager_new_def analyzeCascadeRisk_cpp_def
      analyzeCascadeRisk_def average_def dint_def dgt_def)

text \<open>
  C4, amended, implementation by implementation. C++: on a manager without sensors the
  three fleet means are \<open>0/0 = NaN\<close>, the counts are zero, and \<open>analyzeCascadeRisk\<close> returns
  the risk factor \<open>NaN\<close>, no expected additional failures, the multiplier \<open>1.0\<close> and the
  level LOW, because every comparison with \<open>NaN\<close> is false; no error is raised. Haskell:
  \<open>calculateFleetMetrics\<close> and \<open>analyzeCascadeRisk\<close> on the empty list return the same
  values. Fortran: \<open>analyze_cascade_risk(0, 0)\<close> computes the risk factor \<open>NaN\<close>, the
  multiplier \<open>1.0\<close> and LOW. R: \<open>analyze_cascade_risk\<close> on a data frame without rows stops
  with R's error for a missing value in the condition of \<open>if\<close>, which is not a test for an
  empty fleet.
\<close>

theorem C4_empty_fleet_yields_NaN:
  "calculateFleetMTBF FleetReliabilityManager_new = NaN
   \<and> calculateFleetMTTF FleetReliabilityManager_new = NaN
   \<and> calculateFleetReliability FleetReliabilityManager_new T = NaN
   \<and> getSensorStats FleetReliabilityManager_new
       = \<lparr> total = 0, active = 0, warning = 0, failed = 0 \<rparr>
   \<and> analyzeCascadeRisk_cpp FleetReliabilityManager_new
       = \<lparr> cr_currentFailures = 0, cr_riskFactor = NaN, cr_expectedAdditional = 0,
           cr_riskLevel = ''LOW'', cr_dependencyMultiplier = Fin 1 \<rparr>
   \<and> calculateFleetMetrics [] T
       = \<lparr> totalSensors = 0, activeSensors = 0, warningSensors = 0, failedSensors = 0,
           fleetMTBF = NaN, fleetMTTF = NaN, fleetReliability = NaN \<rparr>
   \<and> analyzeCascadeRisk []
       = \<lparr> currentFailures = 0, cascadeRiskFactor = NaN, expectedAdditionalFailures = 0,
           riskLevel = Low, dependencyMultiplier = Fin 1 \<rparr>
   \<and> analyze_cascade_risk 0 0
       = \<lparr> risk_factor = NaN, dep_mult = Fin 1, expected_additional = 0,
           risk_level = ''LOW'' \<rparr>
   \<and> analyze_cascade_risk_R [] = Inl MissingValueInCondition"
proof -
  have t0: "trunc_toward_zero 0 = 0" by (simp add: trunc_toward_zero_def)
  have r0: "round_half_even 0 = 0" by (simp add: round_half_even_def trunc_toward_zero_def)
  have a: "calculateFleetMTBF FleetReliabilityManager_new = NaN"
    by (simp add: calculateFleetMTBF_def FleetReliabilityManager_new_def dint_def)
  have b: "calculateFleetMTTF FleetReliabilityManager_new = NaN"
    by (simp add: calculateFleetMTTF_def FleetReliabilityManager_new_def dint_def)
  have c: "calculateFleetReliability FleetReliabilityManager_new T = NaN"
    by (simp add: calculateFleetReliability_def FleetReliabilityManager_new_def dint_def)
  have d: "getSensorStats FleetReliabilityManager_new
       = \<lparr> total = 0, active = 0, warning = 0, failed = 0 \<rparr>"
    by (simp add: getSensorStats_def FleetReliabilityManager_new_def)
  have e: "analyzeCascadeRisk_cpp FleetReliabilityManager_new
       = \<lparr> cr_currentFailures = 0, cr_riskFactor = NaN, cr_expectedAdditional = 0,
           cr_riskLevel = ''LOW'', cr_dependencyMultiplier = Fin 1 \<rparr>"
    by (simp add: analyzeCascadeRisk_cpp_def FleetReliabilityManager_new_def dint_def dgt_def t0)
  have f: "calculateFleetMetrics [] T
       = \<lparr> totalSensors = 0, activeSensors = 0, warningSensors = 0, failedSensors = 0,
           fleetMTBF = NaN, fleetMTTF = NaN, fleetReliability = NaN \<rparr>"
    by (simp add: calculateFleetMetrics_def average_def dint_def)
  have g: "analyzeCascadeRisk []
       = \<lparr> currentFailures = 0, cascadeRiskFactor = NaN, expectedAdditionalFailures = 0,
           riskLevel = Low, dependencyMultiplier = Fin 1 \<rparr>"
    by (simp add: analyzeCascadeRisk_def dint_def dgt_def r0)
  have h: "analyze_cascade_risk 0 0
       = \<lparr> risk_factor = NaN, dep_mult = Fin 1, expected_additional = 0,
           risk_level = ''LOW'' \<rparr>"
    by (simp add: analyze_cascade_risk_def dint_def dgt_def t0)
  have i: "analyze_cascade_risk_R [] = Inl MissingValueInCondition"
    by (simp add: analyze_cascade_risk_R_def)
  show ?thesis using a b c d e f g h i by blast
qed

section \<open>Claims about rate validation\<close>

text \<open>
  C8, as stated: a rate \<open>\<lambda> \<le> 0\<close> is refused with \<open>InvalidRate\<close> and no value is produced.
  With \<open>\<lambda> = 0\<close> the Exponential model is constructed and evaluated: reliability one,
  density zero, and \<open>1/0 = +\<infinity>\<close> as mean time between failures.
\<close>

theorem C8_nonpositive_rate_counterexample:
  "ExponentialModel_reliability (ExponentialModel_new (Fin 0)) (Fin 1000) = Fin 1
   \<and> ExponentialModel_mtbf (ExponentialModel_new (Fin 0)) = PInf
   \<and> ExponentialModel_pdf (ExponentialModel_new (Fin 0)) (Fin 1000) = Fin 0
   \<and> exponentialReliability (Fin 0) (Fin 1000) = Fin 1"
  by (simp add: ExponentialModel_reliability_def ExponentialModel_mtbf_def ExponentialModel_pdf_def
      ExponentialModel_new_def exponentialReliability_def inf_signed_def)

text \<open>
  C8, amended: the C++ constructors and the Haskell functions take the rate unchecked. For
  a rate \<open>-1000 \<le> \<lambda> \<le> 0\<close> and a time \<open>t \<ge> 0\<close> with \<open>-\<lambda>t \<le> 700\<close> (so that the exponential and
  the density stay in the range of a double) the Exponential model returns the reliability
  \<open>e^(-\<lambda>t)\<close>, which is at least one, and the density \<open>\<lambda> e^(-\<lambda>t)\<close>. For \<open>\<lambda> \<le> -10^-290\<close> (so
  that the quotients stay in range) the mean time between failures is \<open>1/\<lambda>\<close>, and for a
  32-bit stage count \<open>k\<close> the Erlang mean time to failure is \<open>k/\<lambda>\<close>.
\<close>

theorem C8_nonpositive_rate_is_evaluated:
  assumes "l \<le> 0" and "- 1000 \<le> l" and "0 \<le> t" and "- l * t \<le> 700"
  shows "ExponentialModel_reliability (ExponentialModel_new (Fin l)) (Fin t) = Fin (exp (- l * t))
    \<and> 1 \<le> exp (- l * t)
    \<and> ExponentialModel_pdf (ExponentialModel_new (Fin l)) (Fin t) = Fin (l * exp (- l * t))
    \<and> exponentialReliability (Fin l) (Fin t) = Fin (exp (- (l * t)))
    \<and> (l \<le> - (1 / 10 ^ 290) \<longrightarrow>
          ExponentialModel_mtbf (ExponentialModel_new (Fin l)) = Fin (1 / l)
          \<and> exponentialMTBF (Fin l) = Fin (1 / l))
    \<and> (l \<le> - (1 / 10 ^ 290) \<longrightarrow> - (2 ^ 31) \<le> k \<longrightarrow> k < 2 ^ 31 \<longrightarrow>
          ErlangModel_mttf (ErlangModel_new k (Fin l)) = Fin (of_int k / l)
          \<and> erlangMTTF k (Fin l) = Fin (of_int k / l))"
proof -
  have a: "ExponentialModel_reliability (ExponentialModel_new (Fin l)) (Fin t) = Fin (exp (- l * t))"
    by (simp add: ExponentialModel_reliability_def ExponentialModel_new_def)
  have "0 \<le> - l * t" using assms(1,3) by (simp add: mult_nonpos_nonneg)
  then have b: "1 \<le> exp (- l * t)" by (simp only: one_le_exp_iff)
  have c: "ExponentialModel_pdf (ExponentialModel_new (Fin l)) (Fin t) = Fin (l * exp (- l * t))"
    by (simp add: ExponentialModel_pdf_def ExponentialModel_new_def)
  have d: "exponentialReliability (Fin l) (Fin t) = Fin (exp (- (l * t)))"
    by (simp add: exponentialReliability_def)
  have e: "l \<le> - (1 / 10 ^ 290) \<longrightarrow>
          ExponentialModel_mtbf (ExponentialModel_new (Fin l)) = Fin (1 / l)
          \<and> exponentialMTBF (Fin l) = Fin (1 / l)"
  proof
    assume "l \<le> - (1 / 10 ^ 290)"
    moreover have "(0::real) < 1 / 10 ^ 290" by simp
    ultimately have "l \<noteq> 0" by linarith
    then show "ExponentialModel_mtbf (ExponentialModel_new (Fin l)) = Fin (1 / l)
          \<and> exponentialMTBF (Fin l) = Fin (1 / l)"
      by (simp add: ExponentialModel_mtbf_def ExponentialModel_new_def exponentialMTBF_def)
  qed
  have f: "l \<le> - (1 / 10 ^ 290) \<longrightarrow> - (2 ^ 31) \<le> k \<longrightarrow> k < 2 ^ 31 \<longrightarrow>
          ErlangModel_mttf (ErlangModel_new k (Fin l)) = Fin (of_int k / l)
          \<and> erlangMTTF k (Fin l) = Fin (of_int k / l)"
  proof
    assume "l \<le> - (1 / 10 ^ 290)"
    moreover have "(0::real) < 1 / 10 ^ 290" by simp
    ultimately have "l \<noteq> 0" by linarith
    then show "- (2 ^ 31) \<le> k \<longrightarrow> k < 2 ^ 31 \<longrightarrow>
          ErlangModel_mttf (ErlangModel_new k (Fin l)) = Fin (of_int k / l)
          \<and> erlangMTTF k (Fin l) = Fin (of_int k / l)"
      by (simp add: ErlangModel_mttf_def ErlangModel_new_def erlangMTTF_def dint_def)
  qed
  show ?thesis using a b c d e f by blast
qed

text \<open>The rate \<open>\<lambda> = -1\<close> at \<open>t = 1\<close> with \<open>k = 3\<close> meets the hypotheses of C8.\<close>

theorem C8_nonpositive_rate_witness:
  "(- 1 :: real) \<le> 0 \<and> (- 1000 :: real) \<le> - 1 \<and> (0::real) \<le> 1 \<and> - (- 1 :: real) * 1 \<le> 700
   \<and> (- 1 :: real) \<le> - (1 / 10 ^ 290) \<and> - (2 ^ 31) \<le> (3::int) \<and> (3::int) < 2 ^ 31
   \<and> ExponentialModel_reliability (ExponentialModel_new (Fin (- 1))) (Fin 1) = Fin (exp 1)
   \<and> (1::real) \<le> exp 1
   \<and> ExponentialModel_pdf (ExponentialModel_new (Fin (- 1))) (Fin 1) = Fin (- exp 1)
   \<and> ExponentialModel_mtbf (ExponentialModel_new (Fin (- 1))) = Fin (- 1)
   \<and> ErlangModel_mttf (ErlangModel_new 3 (Fin (- 1))) = Fin (- 3)"
proof -
  have h: "(- 1 :: real) \<le> 0" "(- 1000 :: real) \<le> - 1" "(0::real) \<le> 1" "- (- 1 :: real) * 1 \<le> 700"
    by simp_all
  have s: "(- 1 :: real) \<le> - (1 / 10 ^ 290)" by simp
  have k: "- (2 ^ 31) \<le> (3::int)" "(3::int) < 2 ^ 31" by simp_all
  show ?thesis using C8_nonpositive_rate_is_evaluated[OF h, of 3] h s k by simp
qed

end
